theory Spec2Isabelle
  imports Main
begin

section \<open>Text\<close>

text \<open>
  The servers handle JavaScript strings. A string is modelled as a \<^typ>\<open>string\<close>, one
  \<^typ>\<open>char\<close> per UTF-16 code unit, for the code units below 256 (ASCII and Latin-1);
  \<open>length\<close> then counts what JavaScript's \<open>.length\<close> counts. Every pattern of the
  servers is ASCII.
\<close>

definition toLowerChar :: "char \<Rightarrow> char" where
  \<comment> \<open>\<open>String.prototype.toLowerCase\<close> on one code unit below 256: A-Z, and the Latin-1
      capitals U+00C0..U+00DE except the multiplication sign U+00D7.\<close>
  "toLowerChar c =
     (let n = (of_char c :: nat)
      in if (65 \<le> n \<and> n \<le> 90) \<or> (192 \<le> n \<and> n \<le> 222 \<and> n \<noteq> 215)
         then char_of (n + 32) else c)"

definition toLowerCase :: "string \<Rightarrow> string" where
  "toLowerCase s = map toLowerChar s"

fun startsWith :: "string \<Rightarrow> string \<Rightarrow> bool" where
  "startsWith s [] = True"
| "startsWith [] (p # ps) = False"
| "startsWith (c # s) (p # ps) = (c = p \<and> startsWith s ps)"

fun includesStr :: "string \<Rightarrow> string \<Rightarrow> bool" where
  \<comment> \<open>\<open>s.includes(p)\<close>: \<open>p\<close> occurs in \<open>s\<close> as a contiguous substring.\<close>
  "includesStr [] p = (p = [])"
| "includesStr (c # s) p = (startsWith (c # s) p \<or> includesStr s p)"

definition isWhiteSpace :: "char \<Rightarrow> bool" where
  \<comment> \<open>White space and line terminators of \<open>String.prototype.trim\<close> below 256:
      TAB, LF, VT, FF, CR, SPACE, NBSP.\<close>
  "isWhiteSpace c = (of_char c \<in> {9, 10, 11, 12, 13, 32, 160 :: nat})"

definition trim :: "string \<Rightarrow> string" where
  "trim s = rev (dropWhile isWhiteSpace (rev (dropWhile isWhiteSpace s)))"

definition sliceLast :: "nat \<Rightarrow> string \<Rightarrow> string" where
  \<comment> \<open>\<open>s.slice(-n)\<close> for \<open>n > 0\<close>: the last \<open>n\<close> code units, all of \<open>s\<close> when it is shorter.\<close>
  "sliceLast n s = drop (length s - n) s"

section \<open>Error classifiers\<close>

text \<open>
  \<open>detectError\<close> of each server returns \<open>null\<close> or an object
  \<open>{ isError: true, errorType, message }\<close>.
\<close>

record detected =
  isError :: bool
  errorType :: string
  message :: string

subsection \<open>mcp-qwen\<close>

definition quota_rule_qwen :: "string \<Rightarrow> bool" where
  "quota_rule_qwen text =
     (includesStr text ''quota'' \<or> includesStr text ''rate limit'' \<or> includesStr text ''insufficient_quota'')"

definition auth_rule_qwen :: "string \<Rightarrow> bool" where
  "auth_rule_qwen text =
     (includesStr text ''authentication'' \<or> includesStr text ''invalid api key''
      \<or> includesStr text ''unauthorized'')"

definition model_rule_qwen :: "string \<Rightarrow> bool" where
  "model_rule_qwen text = (includesStr text ''model not found'' \<or> includesStr text ''model_not_found'')"

definition detectError_qwen :: "string \<Rightarrow> detected option" where
  "detectError_qwen output =
     (let text = toLowerCase output
      in if quota_rule_qwen text then
           Some \<lparr>isError = True, errorType = ''QUOTA_EXCEEDED'',
                 message = ''Qwen API quota exceeded. Check your DashScope account limits.''\<rparr>
         else if auth_rule_qwen text then
           Some \<lparr>isError = True, errorType = ''AUTH_ERROR'',
                 message = ''Qwen authentication failed. Run '' @ [CHR 0x27] @ ''qwen login''
                   @ [CHR 0x27] @ '' or set DASHSCOPE_API_KEY env var.''\<rparr>
         else if model_rule_qwen text then
           Some \<lparr>isError = True, errorType = ''MODEL_NOT_FOUND'',
                 message = ''Qwen model not found. Available models: qwen-turbo, qwen-plus, qwen-long.''\<rparr>
         else None)"

subsection \<open>mcp-gemini\<close>

definition quota_rule_gemini :: "string \<Rightarrow> bool" where
  "quota_rule_gemini text =
     (includesStr text ''quota'' \<or> includesStr text ''rate limit'' \<or> includesStr text ''resource_exhausted'')"

definition auth_rule_gemini :: "string \<Rightarrow> bool" where
  "auth_rule_gemini text =
     (includesStr text ''authentication'' \<or> includesStr text ''not authenticated''
      \<or> includesStr text ''login'')"

definition detectError_gemini :: "string \<Rightarrow> detected option" where
  "detectError_gemini output =
     (let text = toLowerCase output
      in if quota_rule_gemini text then
           Some \<lparr>isError = True, errorType = ''QUOTA_EXCEEDED'',
                 message = ''Gemini daily quota exceeded. Free tier: 1000 req/day. Try again tomorrow or use a fallback provider.''\<rparr>
         else if auth_rule_gemini text then
           Some \<lparr>isError = True, errorType = ''AUTH_REQUIRED'',
                 message = ''Gemini not authenticated. Run '' @ [CHR 0x27] @ ''gemini''
                   @ [CHR 0x27] @ '' in terminal to login via Google account.''\<rparr>
         else None)"

subsection \<open>mcp-openai\<close>

definition isLineTerminator :: "char \<Rightarrow> bool" where
  \<comment> \<open>The code units below 256 that the regular expression \<open>.\<close> does not match.\<close>
  "isLineTerminator c = (c = CHR 0x0A \<or> c = CHR 0x0D)"

fun lazyGroup :: "string \<Rightarrow> string \<Rightarrow> string option" where
  \<comment> \<open>\<open>(.+?)[\.\n]\<close> with the group already holding \<open>acc\<close> (at least one code unit): stop at
      the first full stop or line feed, fail at a carriage return or the end of the text.\<close>
  "lazyGroup acc [] = None"
| "lazyGroup acc (c # cs) =
     (if c = CHR ''.'' \<or> c = CHR 0x0A then Some acc
      else if isLineTerminator c then None
      else lazyGroup (acc @ [c]) cs)"

definition groupAt :: "string \<Rightarrow> string option" where
  \<comment> \<open>\<open>(.+?)[\.\n]\<close> at the start of the text: the group takes one code unit at least.\<close>
  "groupAt s =
     (case s of [] \<Rightarrow> None
      | c # cs \<Rightarrow> if isLineTerminator c then None else lazyGroup [c] cs)"

fun matchReset :: "string \<Rightarrow> string option" where
  \<comment> \<open>\<open>output.match(/try again at (.+?)[\.\n]/)\<close>: group 1 of the leftmost match, on the
      text as it is (not lower-cased).\<close>
  "matchReset [] = None"
| "matchReset (c # s) =
     (if startsWith (c # s) ''try again at '' then
        (case groupAt (drop 13 (c # s)) of
           Some g \<Rightarrow> Some g
         | None \<Rightarrow> matchReset s)
      else matchReset s)"

definition quota_rule_openai :: "string \<Rightarrow> bool" where
  "quota_rule_openai combined =
     (includesStr combined ''usage limit'' \<or> includesStr combined ''hit your usage limit'')"

definition model_rule_openai :: "string \<Rightarrow> bool" where
  "model_rule_openai combined =
     includesStr combined ''not supported when using codex with a chatgpt account''"

definition auth_rule_openai :: "string \<Rightarrow> bool" where
  "auth_rule_openai combined =
     (includesStr combined ''auth'' \<and> (includesStr combined ''expired'' \<or> includesStr combined ''login''))"

definition detectError_openai :: "string \<Rightarrow> detected option" where
  "detectError_openai output =
     (let combined = toLowerCase output
      in if quota_rule_openai combined then
           (let resetDate = (case matchReset output of Some g \<Rightarrow> g | None \<Rightarrow> ''unknown'')
            in Some \<lparr>isError = True, errorType = ''QUOTA_EXCEEDED'',
                 message = ''Codex usage limit reached. Credits reset at: '' @ resetDate
                   @ ''. Use a fallback provider.''\<rparr>)
         else if model_rule_openai combined then
           Some \<lparr>isError = True, errorType = ''MODEL_NOT_SUPPORTED'',
                 message = ''This model is not available with ChatGPT Plus. Use the default model.''\<rparr>
         else if auth_rule_openai combined then
           Some \<lparr>isError = True, errorType = ''AUTH_EXPIRED'',
                 message = ''Codex auth token expired. Run '' @ [CHR 0x27] @ ''codex login''
                   @ [CHR 0x27] @ '' to re-authenticate.''\<rparr>
         else None)"

section \<open>Printing numbers\<close>

fun showNat :: "nat \<Rightarrow> string" where
  \<comment> \<open>A natural number in decimal, as a template literal prints it (below \<open>10^21\<close>).\<close>
  "showNat n =
     (if n < 10 then [char_of (48 + n)] else showNat (n div 10) @ [char_of (48 + n mod 10)])"

declare showNat.simps [simp del]

definition showExitCode :: "int option \<Rightarrow> string" where
  \<comment> \<open>\<open>${exitCode}\<close>: the \<open>close\<close> event passes \<open>null\<close> when a signal ended the process.\<close>
  "showExitCode code =
     (case code of
        None \<Rightarrow> ''null''
      | Some i \<Rightarrow> if i < 0 then ''-'' @ showNat (nat (- i)) else showNat (nat i))"

section \<open>Process executor: runCodex, runQwen, runGemini\<close>

text \<open>
  Each \<open>run\<close> function spawns the command line tool, registers callbacks and returns a
  promise. What the process and the timers do is the input of the model: a list of events,
  in the order in which the event loop delivers them. The state is the set of variables the
  callbacks close over, with the two timers, the signals sent and the promise. In the
  state, \<open>procKilled\<close> is \<open>proc.killed\<close>, and \<open>exited\<close> says that no process runs any
  more: it has exited, or it could not be spawned.

  The three functions differ in the points marked with the server: the buffer limit and the
  stored handle of the escalation timer exist in \<open>runGemini\<close> only, and the text of the
  rejection differs.

  The rejection of a run that was killed prints \<open>${timeoutMs / 1000}\<close>, a number computed
  and printed in double precision. The model does no arithmetic on it: the parameter
  \<open>seconds\<close> of the functions below is the text that this expression prints (\<open>120\<close> for
  the default of \<open>qwen_chat\<close>, where \<open>timeoutMs\<close> is \<open>120 * 1000\<close>).
\<close>

datatype server = Codex | Qwen | Gemini

datatype signal = SIGTERM | SIGKILL

datatype timer = Unset | Pending | Fired | Cleared

record processOutcome =
  stdout :: string
  stderr :: string
  exitCode :: "int option"

datatype settlement = Resolved processOutcome | Rejected string

datatype event =
    StdoutData string
  | StderrData string
  | TimerFires
  | KillTimerFires
  | Exit                \<comment> \<open>the process has exited; no callback of the run functions is attached\<close>
  | Close "int option"  \<comment> \<open>\<open>close\<close>: the process has exited and its streams are closed\<close>
  | SpawnError string   \<comment> \<open>\<open>error\<close>: the process could not be spawned\<close>

record exec =
  stdoutBuf :: string
  stderrBuf :: string
  killed :: bool
  timer :: timer
  killTimer :: timer
  signals :: "signal list"
  procKilled :: bool
  exited :: bool
  promise :: "settlement option"

definition MAX_BUFFER :: nat where
  "MAX_BUFFER = 10 * 1024 * 1024"

definition initial :: exec where
  \<comment> \<open>After \<open>spawn\<close> and \<open>setTimeout(..., timeoutMs)\<close>: the main timer is armed, the
      escalation timer does not exist yet.\<close>
  "initial = \<lparr>stdoutBuf = [], stderrBuf = [], killed = False, timer = Pending,
     killTimer = Unset, signals = [], procKilled = False, exited = False, promise = None\<rparr>"

definition clearTimeout :: "timer \<Rightarrow> timer" where
  \<comment> \<open>Cancels an armed timer; no effect on \<open>undefined\<close> or on a timer that has fired.\<close>
  "clearTimeout t = (if t = Pending then Cleared else t)"

definition kill :: "signal \<Rightarrow> exec \<Rightarrow> exec" where
  \<comment> \<open>\<open>proc.kill(sig)\<close>: while the process runs the signal is sent and \<open>proc.killed\<close>
      becomes true; once the process has exited (which can precede \<open>close\<close>), or when it
      was never spawned, nothing is sent and \<open>proc.killed\<close> is left as it is.\<close>
  "kill sig s =
     (if exited s then s else s\<lparr>signals := signals s @ [sig], procKilled := True\<rparr>)"

definition settle :: "settlement \<Rightarrow> exec \<Rightarrow> exec" where
  \<comment> \<open>\<open>resolve\<close> or \<open>reject\<close>: only the first call settles the promise.\<close>
  "settle r s = (if promise s = None then s\<lparr>promise := Some r\<rparr> else s)"

definition onTimeout :: "exec \<Rightarrow> exec" where
  \<comment> \<open>The callback of the main timer.\<close>
  "onTimeout s = (kill SIGTERM (s\<lparr>timer := Fired, killed := True\<rparr>))\<lparr>killTimer := Pending\<rparr>"

definition onKillTimeout :: "exec \<Rightarrow> exec" where
  \<comment> \<open>The callback of the escalation timer, 5000 ms after the main one.\<close>
  "onKillTimeout s =
     (let s1 = s\<lparr>killTimer := Fired\<rparr> in if \<not> procKilled s1 then kill SIGKILL s1 else s1)"

definition onStdout :: "server \<Rightarrow> string \<Rightarrow> exec \<Rightarrow> exec" where
  "onStdout sv d s =
     (let s1 = s\<lparr>stdoutBuf := stdoutBuf s @ d\<rparr>
      in if sv = Gemini \<and> length (stdoutBuf s1) > MAX_BUFFER
         then kill SIGTERM (s1\<lparr>killed := True\<rparr>) else s1)"

definition onStderr :: "server \<Rightarrow> string \<Rightarrow> exec \<Rightarrow> exec" where
  "onStderr sv d s =
     (let s1 = s\<lparr>stderrBuf := stderrBuf s @ d\<rparr>
      in if sv = Gemini \<and> length (stderrBuf s1) > MAX_BUFFER
         then kill SIGTERM (s1\<lparr>killed := True\<rparr>) else s1)"

definition timeoutMessage :: "server \<Rightarrow> string \<Rightarrow> exec \<Rightarrow> string" where
  "timeoutMessage sv seconds s =
     (case sv of
        Codex \<Rightarrow> ''Process killed after '' @ seconds @ ''s timeout. Partial output: ''
                  @ sliceLast 200 (stdoutBuf s @ stderrBuf s)
      | Qwen \<Rightarrow> ''Qwen killed after '' @ seconds @ ''s timeout. Partial: ''
                  @ sliceLast 200 (stdoutBuf s)
      | Gemini \<Rightarrow> ''Gemini killed after '' @ seconds @ ''s timeout. Partial: ''
                  @ sliceLast 200 (stdoutBuf s))"

definition clearTimers :: "server \<Rightarrow> exec \<Rightarrow> exec" where
  \<comment> \<open>\<open>clearTimeout(timer)\<close> in all three; \<open>clearTimeout(killTimer)\<close> in \<open>runGemini\<close> only:
      \<open>runCodex\<close> and \<open>runQwen\<close> do not keep the handle of the escalation timer.\<close>
  "clearTimers sv s =
     (let s1 = s\<lparr>timer := clearTimeout (timer s)\<rparr>
      in if sv = Gemini then s1\<lparr>killTimer := clearTimeout (killTimer s1)\<rparr> else s1)"

definition onClose :: "server \<Rightarrow> string \<Rightarrow> int option \<Rightarrow> exec \<Rightarrow> exec" where
  "onClose sv seconds code s =
     (let s1 = clearTimers sv (s\<lparr>exited := True\<rparr>)
      in if killed s1 then settle (Rejected (timeoutMessage sv seconds s1)) s1
         else settle (Resolved \<lparr>stdout = stdoutBuf s1, stderr = stderrBuf s1,
                                 exitCode = code\<rparr>) s1)"

definition onError :: "server \<Rightarrow> string \<Rightarrow> exec \<Rightarrow> exec" where
  \<comment> \<open>The \<open>error\<close> event (the process could not be spawned): \<open>reject(err)\<close>, with
      \<open>err.message\<close> the text.\<close>
  "onError sv msg s = settle (Rejected msg) (clearTimers sv (s\<lparr>exited := True\<rparr>))"

fun step :: "server \<Rightarrow> string \<Rightarrow> exec \<Rightarrow> event \<Rightarrow> exec" where
  \<comment> \<open>A timer callback runs only while its timer is armed.\<close>
  "step sv seconds s (StdoutData d) = onStdout sv d s"
| "step sv seconds s (StderrData d) = onStderr sv d s"
| "step sv seconds s TimerFires = (if timer s = Pending then onTimeout s else s)"
| "step sv seconds s KillTimerFires = (if killTimer s = Pending then onKillTimeout s else s)"
| "step sv seconds s Exit = s\<lparr>exited := True\<rparr>"
| "step sv seconds s (Close code) = onClose sv seconds code s"
| "step sv seconds s (SpawnError msg) = onError sv msg s"

definition run :: "server \<Rightarrow> string \<Rightarrow> event list \<Rightarrow> exec" where
  "run sv seconds evs = foldl (step sv seconds) initial evs"

definition runCodex :: "string \<Rightarrow> event list \<Rightarrow> settlement option" where
  \<comment> \<open>\<open>None\<close>: the promise is still pending after these events.\<close>
  "runCodex seconds evs = promise (run Codex seconds evs)"

definition runQwen :: "string \<Rightarrow> event list \<Rightarrow> settlement option" where
  "runQwen seconds evs = promise (run Qwen seconds evs)"

definition runGemini :: "string \<Rightarrow> event list \<Rightarrow> settlement option" where
  "runGemini seconds evs = promise (run Gemini seconds evs)"

section \<open>Tool handlers: openai_chat, qwen_chat, gemini_chat\<close>

text \<open>
  A handler awaits the \<open>run\<close> function inside \<open>try\<close>, and returns a tool result
  \<open>{ content: [{ type: "text", text }], isError }\<close> from one of four places. The
  type \<open>returned\<close> has one constructor for each place, and \<open>toToolResult\<close> gives the object.
  The prompt and the model only choose the arguments of the spawned command; what the
  command then does is the event list. Of the timeout a handler uses \<open>timeout * 1000\<close>,
  passed on as \<open>timeoutMs\<close>; \<open>seconds\<close> is the text the run function prints for it.
\<close>

datatype returned =
    Classified detected  \<comment> \<open>\<open>text: error.message, isError: true\<close>, from a \<open>detectError\<close> result\<close>
  | NoResponse string    \<comment> \<open>\<open>text: `No response from ...`, isError: true\<close>\<close>
  | Response string      \<comment> \<open>\<open>text: response\<close>\<close>
  | Caught string        \<comment> \<open>\<open>text: `... error: ${error.message}`, isError: true\<close>, in \<open>catch\<close>\<close>

record toolResult =
  contentText :: string
  resultIsError :: bool

fun toToolResult :: "returned \<Rightarrow> toolResult" where
  "toToolResult (Classified e) = \<lparr>contentText = message e, resultIsError = True\<rparr>"
| "toToolResult (NoResponse t) = \<lparr>contentText = t, resultIsError = True\<rparr>"
| "toToolResult (Response t) = \<lparr>contentText = t, resultIsError = False\<rparr>"
| "toToolResult (Caught t) = \<lparr>contentText = t, resultIsError = True\<rparr>"

definition qwen_chat :: "string \<Rightarrow> event list \<Rightarrow> returned option" where
  \<comment> \<open>\<open>None\<close>: the handler is still awaiting \<open>runQwen\<close>.\<close>
  "qwen_chat seconds evs =
     (case runQwen seconds evs of
        None \<Rightarrow> None
      | Some (Resolved r) \<Rightarrow>
          Some (let combined = stdout r @ stderr r
                in case detectError_qwen combined of
                     Some error \<Rightarrow> Classified error
                   | None \<Rightarrow>
                       (let response = trim (stdout r)
                        in if response = [] then
                             NoResponse (''No response from Qwen. Exit: '' @ showExitCode (exitCode r)
                               @ ''. Stderr: '' @ sliceLast 300 (stderr r))
                           else Response response))
      | Some (Rejected msg) \<Rightarrow>
          Some (case detectError_qwen msg of
                  Some knownError \<Rightarrow> Classified knownError
                | None \<Rightarrow> Caught (''Qwen error: '' @ msg)))"

definition gemini_chat :: "string \<Rightarrow> event list \<Rightarrow> returned option" where
  "gemini_chat seconds evs =
     (case runGemini seconds evs of
        None \<Rightarrow> None
      | Some (Resolved r) \<Rightarrow>
          Some (let combined = stdout r @ stderr r
                in case detectError_gemini combined of
                     Some error \<Rightarrow> Classified error
                   | None \<Rightarrow>
                       (let response = trim (stdout r)
                        in if response = [] then
                             NoResponse (''No response from Gemini. Exit: '' @ showExitCode (exitCode r)
                               @ ''. Stderr: '' @ sliceLast 300 (stderr r))
                           else Response response))
      | Some (Rejected msg) \<Rightarrow>
          Some (case detectError_gemini msg of
                  Some knownError \<Rightarrow> Classified knownError
                | None \<Rightarrow> Caught (''Gemini error: '' @ msg)))"

fun splitLines :: "string \<Rightarrow> string list" where
  \<comment> \<open>\<open>stdout.split("\n")\<close>\<close>
  "splitLines [] = [[]]"
| "splitLines (c # cs) =
     (if c = CHR 0x0A then [] # splitLines cs
      else (case splitLines cs of
              [] \<Rightarrow> [[c]]
            | l # ls \<Rightarrow> (c # l) # ls))"

fun joinLines :: "string list \<Rightarrow> string" where
  \<comment> \<open>\<open>response.join("\n")\<close>\<close>
  "joinLines [] = []"
| "joinLines [l] = l"
| "joinLines (l # ls) = l @ [CHR 0x0A] @ joinLines ls"

fun scanLines :: "bool \<Rightarrow> string list \<Rightarrow> string list \<Rightarrow> string list" where
  \<comment> \<open>The loop of \<open>extractResponse\<close> over the lines, with its variables \<open>inResponse\<close> and
      \<open>response\<close>.\<close>
  "scanLines inResponse response [] = response"
| "scanLines inResponse response (line # lines) =
     (if trim line = ''codex'' then scanLines True response lines
      else if inResponse \<and> startsWith line ''tokens used'' then response
      else if inResponse then scanLines inResponse (response @ [line]) lines
      else scanLines inResponse response lines)"

definition extractResponse :: "string \<Rightarrow> string \<Rightarrow> string" where
  "extractResponse out outputFileContent =
     (if outputFileContent \<noteq> [] \<and> trim outputFileContent \<noteq> [] then trim outputFileContent
      else (let response = scanLines False [] (splitLines out)
            in if length response > 0 then trim (joinLines response) else trim out))"

definition openai_chat :: "string \<Rightarrow> event list \<Rightarrow> string option \<Rightarrow> returned option" where
  \<comment> \<open>\<open>file\<close>: what \<open>readFile(outputFile)\<close> gives after the run, \<open>None\<close> when it throws.\<close>
  "openai_chat seconds evs file =
     (case runCodex seconds evs of
        None \<Rightarrow> None
      | Some (Resolved r) \<Rightarrow>
          Some (let combined = stdout r @ stderr r
                in case detectError_openai combined of
                     Some error \<Rightarrow> Classified error
                   | None \<Rightarrow>
                       (let outputFileContent = (case file of Some c \<Rightarrow> c | None \<Rightarrow> []);
                            response = extractResponse (stdout r) outputFileContent
                        in if response = [] then
                             NoResponse (''No response from Codex. Exit code: ''
                               @ showExitCode (exitCode r) @ ''. Output: '' @ sliceLast 300 combined)
                           else Response response))
      | Some (Rejected msg) \<Rightarrow>
          Some (case detectError_openai msg of
                  Some knownError \<Rightarrow> Classified knownError
                | None \<Rightarrow> Caught (''Codex error: '' @ msg)))"

section \<open>Fallback chain walk\<close>

text \<open>
  Modelled from the spec: the chain walk of the Fallback Chain Orchestrator. The repository
  holds no code for it: the skill document gives the chains
  (\<open>OpenAI -> on QUOTA/error -> Qwen -> DeepSeek\<close>, "switch to fallback immediately, do NOT
  retry") as instructions to the calling agent. The definitions below follow the spec's
  data model and its state machine \<open>PENDING -> TRYING(i) -> {SUCCEEDED, EXHAUSTED}\<close>.
\<close>

datatype kind =
  QUOTA_EXCEEDED | AUTH_REQUIRED | MODEL_UNSUPPORTED | MODEL_NOT_FOUND | TIMEOUT
  | EMPTY_RESPONSE | UNKNOWN

record classifiedError =
  errorKind :: kind
  errorMessage :: string

datatype invocationResult = Success string | Failure classifiedError

record chainAttempt =
  agentName :: string
  attemptResult :: invocationResult
  elapsedMs :: nat

record 'r adapter =
  adapterName :: string
  invoke :: "'r \<Rightarrow> invocationResult \<times> nat"

datatype walkState = PENDING | TRYING nat | SUCCEEDED | EXHAUSTED

definition attempt :: "'r \<Rightarrow> 'r adapter \<Rightarrow> chainAttempt" where
  \<comment> \<open>Modelled from the spec: one invocation of a chain member and its record in the log.\<close>
  "attempt req a =
     \<lparr>agentName = adapterName a, attemptResult = fst (invoke a req),
      elapsedMs = snd (invoke a req)\<rparr>"

definition walkStep ::
  "'r adapter list \<Rightarrow> 'r \<Rightarrow> walkState \<times> chainAttempt list \<Rightarrow> walkState \<times> chainAttempt list"
where
  \<comment> \<open>Modelled from the spec: the transition rule. \<open>TRYING(i)\<close> invokes member \<open>i\<close>; a
      success stops the walk, a failure of any kind moves to \<open>TRYING(i+1)\<close> if
      \<open>i+1 < length\<close>, else to \<open>EXHAUSTED\<close>. An index outside the chain (an empty chain,
      which the spec excludes) ends the walk with nothing attempted.\<close>
  "walkStep chain req st =
     (case fst st of
        PENDING \<Rightarrow> (TRYING 0, snd st)
      | TRYING i \<Rightarrow>
          (if length chain \<le> i then (EXHAUSTED, snd st)
           else (let a = attempt req (chain ! i); log = snd st @ [a]
                 in case attemptResult a of
                      Success t \<Rightarrow> (SUCCEEDED, log)
                    | Failure e \<Rightarrow> (if i + 1 < length chain then TRYING (i + 1) else EXHAUSTED, log)))
      | SUCCEEDED \<Rightarrow> st
      | EXHAUSTED \<Rightarrow> st)"

function chainRun ::
  "'r adapter list \<Rightarrow> 'r \<Rightarrow> walkState \<times> chainAttempt list \<Rightarrow> walkState \<times> chainAttempt list"
where
  "chainRun chain req st =
     (if fst st = SUCCEEDED \<or> fst st = EXHAUSTED then st
      else chainRun chain req (walkStep chain req st))"
  by pat_completeness auto
termination
  by (relation "measure (\<lambda>(chain, req, st).
        case fst st of PENDING \<Rightarrow> length chain + 2 | TRYING i \<Rightarrow> Suc (length chain - i)
        | SUCCEEDED \<Rightarrow> 0 | EXHAUSTED \<Rightarrow> 0)")
     (auto simp: walkStep_def Let_def split: walkState.splits invocationResult.splits)

declare chainRun.simps [simp del]

definition chainWalk :: "'r adapter list \<Rightarrow> 'r \<Rightarrow> walkState \<times> chainAttempt list" where
  \<comment> \<open>Modelled from the spec: a whole walk, giving the final state and the attempt log.\<close>
  "chainWalk chain req = chainRun chain req (PENDING, [])"

definition terminalResult :: "walkState \<times> chainAttempt list \<Rightarrow> invocationResult option" where
  \<comment> \<open>Modelled from the spec: the terminal result is that of the last attempt.\<close>
  "terminalResult w = (case snd w of [] \<Rightarrow> None | a # as \<Rightarrow> Some (attemptResult (last (a # as))))"

definition isFailure :: "invocationResult \<Rightarrow> bool" where
  "isFailure r = (case r of Success t \<Rightarrow> False | Failure e \<Rightarrow> True)"

section \<open>Notions used by the statements\<close>

definition failingAgent :: "string \<Rightarrow> kind \<Rightarrow> unit adapter" where
  \<comment> \<open>A chain member that fails with the given kind on every request, after 10 ms.\<close>
  "failingAgent n k =
     \<lparr>adapterName = n,
      invoke = (\<lambda>req. (Failure \<lparr>errorKind = k, errorMessage = n @ '' failed''\<rparr>, 10))\<rparr>"

definition spec_kinds :: "string set" where
  \<comment> \<open>The kinds of the data model's ClassifiedError, as names.\<close>
  "spec_kinds = {''QUOTA_EXCEEDED'', ''AUTH_REQUIRED'', ''MODEL_UNSUPPORTED'', ''MODEL_NOT_FOUND'',
     ''TIMEOUT'', ''EMPTY_RESPONSE'', ''UNKNOWN''}"

fun stdoutOf :: "event list \<Rightarrow> string" where
  \<comment> \<open>Everything the process wrote to stdout, in order.\<close>
  "stdoutOf [] = []"
| "stdoutOf (StdoutData d # evs) = d @ stdoutOf evs"
| "stdoutOf (e # evs) = stdoutOf evs"

fun stderrOf :: "event list \<Rightarrow> string" where
  "stderrOf [] = []"
| "stderrOf (StderrData d # evs) = d @ stderrOf evs"
| "stderrOf (e # evs) = stderrOf evs"

fun isEnd :: "event \<Rightarrow> bool" where
  "isEnd (Close code) = True"
| "isEnd (SpawnError msg) = True"
| "isEnd e = False"

definition running :: "event list \<Rightarrow> bool" where
  \<comment> \<open>Neither \<open>close\<close> nor \<open>error\<close> has been delivered to the run function.\<close>
  "running evs = list_all (\<lambda>e. \<not> isEnd e) evs"

definition overflowed :: "event list \<Rightarrow> bool" where
  \<comment> \<open>One of the two streams has carried more than \<open>MAX_BUFFER\<close> code units.\<close>
  "overflowed evs = (length (stdoutOf evs) > MAX_BUFFER \<or> length (stderrOf evs) > MAX_BUFFER)"

definition bigChunk :: string where
  \<comment> \<open>A chunk of 10 MiB + 1 code units.\<close>
  "bigChunk = replicate (Suc MAX_BUFFER) CHR ''a''"

section \<open>The classifiers\<close>

text \<open>
  Claim C6, as amended. For every input text each classifier returns \<open>null\<close> or an error
  whose \<open>errorType\<close> is one of the names of its own server: QUOTA_EXCEEDED,
  MODEL_NOT_SUPPORTED or AUTH_EXPIRED for mcp-openai; QUOTA_EXCEEDED, AUTH_ERROR or
  MODEL_NOT_FOUND for mcp-qwen; QUOTA_EXCEEDED or AUTH_REQUIRED for mcp-gemini.
\<close>

theorem detectError_kinds:
  "map_option errorType (detectError_openai t)
     \<in> {None, Some ''QUOTA_EXCEEDED'', Some ''MODEL_NOT_SUPPORTED'', Some ''AUTH_EXPIRED''}
   \<and> map_option errorType (detectError_qwen t)
     \<in> {None, Some ''QUOTA_EXCEEDED'', Some ''AUTH_ERROR'', Some ''MODEL_NOT_FOUND''}
   \<and> map_option errorType (detectError_gemini t)
     \<in> {None, Some ''QUOTA_EXCEEDED'', Some ''AUTH_REQUIRED''}"
  by (simp add: detectError_openai_def detectError_qwen_def detectError_gemini_def Let_def)

text \<open>
  Claim C6 as stated fails: mcp-openai answers the message of an unsupported model with
  the kind MODEL_NOT_SUPPORTED, and mcp-qwen an invalid key with AUTH_ERROR; neither
  name is in the enumeration of the data model.
\<close>

theorem detectError_kinds_counterexample:
  "detectError_openai ''Model gpt-5 is not supported when using Codex with a ChatGPT account''
     \<noteq> None
   \<and> errorType (the (detectError_openai
         ''Model gpt-5 is not supported when using Codex with a ChatGPT account''))
     \<notin> spec_kinds
   \<and> detectError_qwen ''Error: invalid API key'' \<noteq> None
   \<and> errorType (the (detectError_qwen ''Error: invalid API key'')) \<notin> spec_kinds"
  by code_simp

text \<open>
  Claim C9. In each classifier the first matching rule wins: a text that matches the quota
  rule and the authentication rule gets the kind QUOTA_EXCEEDED, the kind of the earlier
  rule, and a text that matches no rule gets \<open>null\<close>.
\<close>

theorem first_rule_wins:
  "(quota_rule_qwen (toLowerCase t) \<and> auth_rule_qwen (toLowerCase t)
      \<longrightarrow> map_option errorType (detectError_qwen t) = Some ''QUOTA_EXCEEDED'')
   \<and> (\<not> quota_rule_qwen (toLowerCase t) \<and> \<not> auth_rule_qwen (toLowerCase t)
        \<and> \<not> model_rule_qwen (toLowerCase t) \<longrightarrow> detectError_qwen t = None)
   \<and> (quota_rule_gemini (toLowerCase t) \<and> auth_rule_gemini (toLowerCase t)
      \<longrightarrow> map_option errorType (detectError_gemini t) = Some ''QUOTA_EXCEEDED'')
   \<and> (\<not> quota_rule_gemini (toLowerCase t) \<and> \<not> auth_rule_gemini (toLowerCase t)
      \<longrightarrow> detectError_gemini t = None)
   \<and> (quota_rule_openai (toLowerCase t) \<and> auth_rule_openai (toLowerCase t)
      \<longrightarrow> map_option errorType (detectError_openai t) = Some ''QUOTA_EXCEEDED'')
   \<and> (\<not> quota_rule_openai (toLowerCase t) \<and> \<not> model_rule_openai (toLowerCase t)
        \<and> \<not> auth_rule_openai (toLowerCase t) \<longrightarrow> detectError_openai t = None)"
  by (simp add: detectError_openai_def detectError_qwen_def detectError_gemini_def Let_def)

theorem first_rule_wins_witness:
  "quota_rule_qwen (toLowerCase ''Rate limit hit during authentication'')
   \<and> auth_rule_qwen (toLowerCase ''Rate limit hit during authentication'')
   \<and> map_option errorType (detectError_qwen ''Rate limit hit during authentication'')
       = Some ''QUOTA_EXCEEDED''
   \<and> quota_rule_gemini (toLowerCase ''Rate limit hit during authentication'')
   \<and> auth_rule_gemini (toLowerCase ''Rate limit hit during authentication'')
   \<and> map_option errorType (detectError_gemini ''Rate limit hit during authentication'')
       = Some ''QUOTA_EXCEEDED''
   \<and> quota_rule_openai (toLowerCase ''Usage limit hit; auth token expired'')
   \<and> auth_rule_openai (toLowerCase ''Usage limit hit; auth token expired'')
   \<and> map_option errorType (detectError_openai ''Usage limit hit; auth token expired'')
       = Some ''QUOTA_EXCEEDED''
   \<and> \<not> quota_rule_qwen (toLowerCase ''All good'') \<and> \<not> auth_rule_qwen (toLowerCase ''All good'')
   \<and> \<not> model_rule_qwen (toLowerCase ''All good'') \<and> detectError_qwen ''All good'' = None
   \<and> \<not> quota_rule_gemini (toLowerCase ''All good'')
   \<and> \<not> auth_rule_gemini (toLowerCase ''All good'') \<and> detectError_gemini ''All good'' = None
   \<and> \<not> quota_rule_openai (toLowerCase ''All good'')
   \<and> \<not> model_rule_openai (toLowerCase ''All good'')
   \<and> \<not> auth_rule_openai (toLowerCase ''All good'') \<and> detectError_openai ''All good'' = None"
proof -
  have both: "quota_rule_qwen (toLowerCase ''Rate limit hit during authentication'')"
      "auth_rule_qwen (toLowerCase ''Rate limit hit during authentication'')"
      "quota_rule_gemini (toLowerCase ''Rate limit hit during authentication'')"
      "auth_rule_gemini (toLowerCase ''Rate limit hit during authentication'')"
    by code_simp+
  have both_openai: "quota_rule_openai (toLowerCase ''Usage limit hit; auth token expired'')"
      "auth_rule_openai (toLowerCase ''Usage limit hit; auth token expired'')"
    by code_simp+
  have none: "\<not> quota_rule_qwen (toLowerCase ''All good'')"
      "\<not> auth_rule_qwen (toLowerCase ''All good'')"
      "\<not> model_rule_qwen (toLowerCase ''All good'')"
      "\<not> quota_rule_gemini (toLowerCase ''All good'')"
      "\<not> auth_rule_gemini (toLowerCase ''All good'')"
      "\<not> quota_rule_openai (toLowerCase ''All good'')"
      "\<not> model_rule_openai (toLowerCase ''All good'')"
      "\<not> auth_rule_openai (toLowerCase ''All good'')"
    by code_simp+
  show ?thesis
    using first_rule_wins [of "''Rate limit hit during authentication''"]
      first_rule_wins [of "''Usage limit hit; auth token expired''"]
      first_rule_wins [of "''All good''"]
    by (simp only: both both_openai none simp_thms)
qed

text \<open>
  Claim C10. Each classifier is a function of its input text alone: on identical texts it
  gives identical results. Its rules are matched on the lower-cased text, so two texts
  that differ in letter case only match the same rule: the whole result is the same in
  mcp-qwen and mcp-gemini, and the kind is the same in mcp-openai.
\<close>

theorem detectError_deterministic:
  "(a = b \<longrightarrow> detectError_openai a = detectError_openai b
        \<and> detectError_qwen a = detectError_qwen b
        \<and> detectError_gemini a = detectError_gemini b)
   \<and> (toLowerCase a = toLowerCase b \<longrightarrow>
        detectError_qwen a = detectError_qwen b
        \<and> detectError_gemini a = detectError_gemini b
        \<and> map_option errorType (detectError_openai a)
            = map_option errorType (detectError_openai b))"
  by (simp add: detectError_openai_def detectError_qwen_def detectError_gemini_def Let_def)

theorem detectError_deterministic_witness:
  "toLowerCase ''Rate Limit reached'' = toLowerCase ''rate LIMIT reached''
   \<and> detectError_qwen ''Rate Limit reached'' = detectError_qwen ''rate LIMIT reached''
   \<and> detectError_gemini ''Rate Limit reached'' = detectError_gemini ''rate LIMIT reached''
   \<and> map_option errorType (detectError_openai ''Rate Limit reached'')
       = map_option errorType (detectError_openai ''rate LIMIT reached'')
   \<and> detectError_openai ''Rate Limit reached'' = detectError_openai ''Rate Limit reached''"
proof -
  have h: "toLowerCase ''Rate Limit reached'' = toLowerCase ''rate LIMIT reached''"
    by code_simp
  show ?thesis
    using detectError_deterministic [of "''Rate Limit reached''" "''rate LIMIT reached''"]
      detectError_deterministic [of "''Rate Limit reached''" "''Rate Limit reached''"]
    by (simp only: h simp_thms)
qed

text \<open>
  The reset date in the message of mcp-openai is taken from the text as it is, with a
  pattern in lower case: the message, unlike the kind, depends on the letter case.
\<close>

lemma openai_message_case_sensitive:
  "message (the (detectError_openai ''usage limit, try again at 5pm.''))
     = ''Codex usage limit reached. Credits reset at: 5pm. Use a fallback provider.''
   \<and> message (the (detectError_openai ''Usage limit, Try again at 5pm.''))
     = ''Codex usage limit reached. Credits reset at: unknown. Use a fallback provider.''"
  by code_simp

section \<open>The executor\<close>

text \<open>
  In the statements below \<open>secs\<close> is the text that the run function prints for
  \<open>timeoutMs / 1000\<close>, \<open>evs\<close> the events delivered so far, and \<open>code\<close> the exit code
  that \<open>close\<close> reports.
\<close>

subsection \<open>The state while the process runs\<close>

lemma run_snoc: "run sv secs (evs @ [e]) = step sv secs (run sv secs evs) e"
  by (simp add: run_def)

lemma run_Nil: "run sv secs [] = initial"
  by (simp add: run_def)

lemma stdoutOf_snoc:
  "stdoutOf (evs @ [e]) = stdoutOf evs @ (case e of StdoutData d \<Rightarrow> d | _ \<Rightarrow> [])"
  by (induction evs rule: stdoutOf.induct) (auto split: event.splits)

lemma stderrOf_snoc:
  "stderrOf (evs @ [e]) = stderrOf evs @ (case e of StderrData d \<Rightarrow> d | _ \<Rightarrow> [])"
  by (induction evs rule: stderrOf.induct) (auto split: event.splits)

lemma running_snoc: "running (evs @ [e]) = (running evs \<and> \<not> isEnd e)"
  by (simp add: running_def)

lemmas handler_defs = onStdout_def onStderr_def onTimeout_def onKillTimeout_def kill_def
  Let_def

lemma running_state:
  "running evs \<Longrightarrow>
     promise (run sv secs evs) = None \<and> exited (run sv secs evs) = (Exit \<in> set evs)
     \<and> stdoutBuf (run sv secs evs) = stdoutOf evs \<and> stderrBuf (run sv secs evs) = stderrOf evs
     \<and> timer (run sv secs evs) = (if TimerFires \<in> set evs then Fired else Pending)"
proof (induction evs rule: rev_induct)
  case Nil
  show ?case by (simp add: run_Nil initial_def)
next
  case (snoc e evs)
  then have r: "running evs" and ne: "\<not> isEnd e" by (simp_all add: running_snoc)
  note IH = snoc.IH [OF r]
  show ?case
    using IH ne
    by (cases e; cases sv) (simp_all add: run_snoc stdoutOf_snoc stderrOf_snoc handler_defs)
qed

lemma running_killed:
  "running evs \<Longrightarrow>
     killed (run sv secs evs) = (TimerFires \<in> set evs \<or> (sv = Gemini \<and> overflowed evs))"
proof (induction evs rule: rev_induct)
  case Nil
  show ?case by (simp add: run_Nil initial_def overflowed_def)
next
  case (snoc e evs)
  then have r: "running evs" and ne: "\<not> isEnd e" by (simp_all add: running_snoc)
  note IH = snoc.IH [OF r]
  note st = running_state [OF r, of sv secs]
  show ?case
    using IH ne st
    by (cases e; cases sv)
       (auto simp add: run_snoc stdoutOf_snoc stderrOf_snoc handler_defs overflowed_def)
qed

lemma running_signals:
  "running evs \<Longrightarrow> Exit \<notin> set evs \<Longrightarrow> killed (run sv secs evs) \<Longrightarrow>
     SIGTERM \<in> set (signals (run sv secs evs)) \<and> procKilled (run sv secs evs)"
proof (induction evs rule: rev_induct)
  case Nil
  then show ?case by (simp add: run_Nil initial_def)
next
  case (snoc e evs)
  then have r: "running evs" and ne: "\<not> isEnd e" and x: "Exit \<notin> set evs" and ex: "e \<noteq> Exit"
    by (auto simp add: running_snoc)
  note st = running_state [OF r, of sv secs]
  show ?case
    using snoc.IH [OF r x] snoc.prems(3) ne ex st x
    by (cases e; cases sv) (auto simp add: run_snoc handler_defs split: if_splits)
qed

lemma timeoutMessage_cong:
  "stdoutBuf s' = stdoutBuf s \<Longrightarrow> stderrBuf s' = stderrBuf s \<Longrightarrow>
     timeoutMessage sv secs s' = timeoutMessage sv secs s"
  by (cases sv) (simp_all add: timeoutMessage_def)

lemma run_close:
  assumes "running evs"
  shows "promise (run sv secs (evs @ [Close code])) =
     Some (if killed (run sv secs evs) then Rejected (timeoutMessage sv secs (run sv secs evs))
           else Resolved \<lparr>stdout = stdoutOf evs, stderr = stderrOf evs, exitCode = code\<rparr>)"
proof -
  note st = running_state [OF assms, of sv secs]
  have m: "timeoutMessage sv secs (clearTimers sv ((run sv secs evs)\<lparr>exited := True\<rparr>))
      = timeoutMessage sv secs (run sv secs evs)"
    by (rule timeoutMessage_cong) (simp_all add: clearTimers_def Let_def)
  show ?thesis
    using st m
    by (cases sv) (simp_all add: run_snoc onClose_def settle_def clearTimers_def Let_def)
qed

lemma run_error:
  assumes "running evs"
  shows "promise (run sv secs (evs @ [SpawnError msg])) = Some (Rejected msg)"
  using running_state [OF assms, of sv secs]
  by (cases sv) (simp_all add: run_snoc onError_def settle_def clearTimers_def Let_def)

lemma run_close_codex:
  assumes "running evs"
  shows "runCodex secs (evs @ [Close code]) =
     Some (if TimerFires \<in> set evs
           then Rejected (''Process killed after '' @ secs @ ''s timeout. Partial output: ''
                  @ sliceLast 200 (stdoutOf evs @ stderrOf evs))
           else Resolved \<lparr>stdout = stdoutOf evs, stderr = stderrOf evs, exitCode = code\<rparr>)"
  using run_close [OF assms, of Codex secs code] running_killed [OF assms, of Codex secs]
    running_state [OF assms, of Codex secs]
  by (simp add: runCodex_def timeoutMessage_def)

lemma run_close_qwen:
  assumes "running evs"
  shows "runQwen secs (evs @ [Close code]) =
     Some (if TimerFires \<in> set evs
           then Rejected (''Qwen killed after '' @ secs @ ''s timeout. Partial: ''
                  @ sliceLast 200 (stdoutOf evs))
           else Resolved \<lparr>stdout = stdoutOf evs, stderr = stderrOf evs, exitCode = code\<rparr>)"
  using run_close [OF assms, of Qwen secs code] running_killed [OF assms, of Qwen secs]
    running_state [OF assms, of Qwen secs]
  by (simp add: runQwen_def timeoutMessage_def)

lemma run_close_gemini:
  assumes "running evs"
  shows "runGemini secs (evs @ [Close code]) =
     Some (if TimerFires \<in> set evs \<or> overflowed evs
           then Rejected (''Gemini killed after '' @ secs @ ''s timeout. Partial: ''
                  @ sliceLast 200 (stdoutOf evs))
           else Resolved \<lparr>stdout = stdoutOf evs, stderr = stderrOf evs, exitCode = code\<rparr>)"
  using run_close [OF assms, of Gemini secs code] running_killed [OF assms, of Gemini secs]
    running_state [OF assms, of Gemini secs]
  by (simp add: runGemini_def timeoutMessage_def)

text \<open>
  Claim C4, as amended. Every run whose process closes settles its promise. When the
  \<open>close\<close> event comes before the main timer has fired (and, in \<open>runGemini\<close>, with both
  streams within the buffer limit) the promise resolves with
  \<open>{ stdout, stderr, exitCode }\<close>, the exit code being the one the \<open>close\<close> event
  reports; the outcome has no \<open>timedOut\<close> field. When the main timer has fired before
  \<open>close\<close> (or, in \<open>runGemini\<close>, a stream went over the limit) the promise is rejected
  with an error whose message holds the text printed for \<open>timeoutMs / 1000\<close> and ends
  with the last 200 code units of the output.
\<close>

theorem run_settles:
  assumes "running evs"
  shows "runCodex secs (evs @ [Close code]) =
       Some (if TimerFires \<in> set evs
             then Rejected (''Process killed after '' @ secs @ ''s timeout. Partial output: ''
                    @ sliceLast 200 (stdoutOf evs @ stderrOf evs))
             else Resolved \<lparr>stdout = stdoutOf evs, stderr = stderrOf evs, exitCode = code\<rparr>)
     \<and> runQwen secs (evs @ [Close code]) =
       Some (if TimerFires \<in> set evs
             then Rejected (''Qwen killed after '' @ secs @ ''s timeout. Partial: ''
                    @ sliceLast 200 (stdoutOf evs))
             else Resolved \<lparr>stdout = stdoutOf evs, stderr = stderrOf evs, exitCode = code\<rparr>)
     \<and> runGemini secs (evs @ [Close code]) =
       Some (if TimerFires \<in> set evs \<or> overflowed evs
             then Rejected (''Gemini killed after '' @ secs @ ''s timeout. Partial: ''
                    @ sliceLast 200 (stdoutOf evs))
             else Resolved \<lparr>stdout = stdoutOf evs, stderr = stderrOf evs, exitCode = code\<rparr>)"
  using run_close_codex [OF assms] run_close_qwen [OF assms] run_close_gemini [OF assms]
  by (simp only: simp_thms)

text \<open>
  Claim C4 as stated fails: a run that times out does not resolve, it is rejected.
\<close>

theorem run_settles_counterexample:
  "runQwen ''120'' [StdoutData ''partial'', TimerFires, Close None]
     = Some (Rejected ''Qwen killed after 120s timeout. Partial: partial'')
   \<and> runCodex ''90'' [TimerFires, Close (Some 143)]
     = Some (Rejected ''Process killed after 90s timeout. Partial output: '')
   \<and> runGemini ''90'' [TimerFires, Close None]
     = Some (Rejected ''Gemini killed after 90s timeout. Partial: '')"
  by code_simp

theorem run_settles_witness:
  "running [StdoutData ''hello'', StderrData ''warn'']
   \<and> runQwen ''120'' ([StdoutData ''hello'', StderrData ''warn''] @ [Close (Some 3)])
       = Some (Resolved \<lparr>stdout = ''hello'', stderr = ''warn'', exitCode = Some 3\<rparr>)
   \<and> running [StdoutData ''hello'', TimerFires]
   \<and> runQwen ''120'' ([StdoutData ''hello'', TimerFires] @ [Close None])
       = Some (Rejected ''Qwen killed after 120s timeout. Partial: hello'')"
proof -
  have r1: "running [StdoutData ''hello'', StderrData ''warn'']" by code_simp
  have r2: "running [StdoutData ''hello'', TimerFires]" by code_simp
  have s: "sliceLast 200 ''hello'' = ''hello''" by code_simp
  show ?thesis
    using run_settles [OF r1, of "''120''" "Some 3"] run_settles [OF r2, of "''120''" None] r1 r2 s
    by simp
qed

subsection \<open>The buffer limit\<close>

lemma length_bigChunk: "length bigChunk = Suc MAX_BUFFER"
  by (simp add: bigChunk_def)

lemma bigChunk_overflows: "MAX_BUFFER < length bigChunk"
  by (simp add: length_bigChunk)

text \<open>
  In \<open>runGemini\<close> each of the two buffers is compared with \<open>MAX_BUFFER\<close>, 10 MiB, after
  every chunk. Once the process has written more than that to a stream, the run is marked
  as killed, and SIGTERM has been sent unless the process had exited already; the buffers
  still hold everything received (nothing is cut at the limit), and when the process
  closes the promise is rejected with the timeout error.
\<close>

lemma gemini_buffer_limit:
  assumes "running evs" and "overflowed evs"
  shows "MAX_BUFFER = 10 * 1024 * 1024
     \<and> killed (run Gemini secs evs)
     \<and> (Exit \<notin> set evs \<longrightarrow> SIGTERM \<in> set (signals (run Gemini secs evs)))
     \<and> stdoutBuf (run Gemini secs evs) = stdoutOf evs
     \<and> stderrBuf (run Gemini secs evs) = stderrOf evs
     \<and> runGemini secs (evs @ [Close code]) =
         Some (Rejected (''Gemini killed after '' @ secs @ ''s timeout. Partial: ''
                  @ sliceLast 200 (stdoutOf evs)))"
proof -
  have k: "killed (run Gemini secs evs)"
    using running_killed [OF assms(1), of Gemini secs] assms(2) by simp
  show ?thesis
    using k running_signals [OF assms(1) _ k] running_state [OF assms(1), of Gemini secs]
      run_close_gemini [OF assms(1), of secs code] assms(2)
    by (simp add: MAX_BUFFER_def)
qed

text \<open>
  Claim C2, on the code. \<open>runQwen\<close> and \<open>runCodex\<close> have no limit on their buffers: a
  process that writes 10 MiB + 1 code units to a stream and exits is sent no signal, and
  the run resolves with the whole output. In \<open>runGemini\<close>, on the same output, the run is
  marked as killed and SIGTERM is sent; the buffer holds the whole chunk, and the run is
  rejected with the timeout error.
\<close>

theorem buffer_cap_missing:
  "MAX_BUFFER < length bigChunk
   \<and> runQwen ''120'' [StdoutData bigChunk, Close (Some 0)]
       = Some (Resolved \<lparr>stdout = bigChunk, stderr = [], exitCode = Some 0\<rparr>)
   \<and> \<not> killed (run Qwen ''120'' [StdoutData bigChunk])
   \<and> signals (run Qwen ''120'' [StdoutData bigChunk, Close (Some 0)]) = []
   \<and> runCodex ''90'' [StderrData bigChunk, Close (Some 0)]
       = Some (Resolved \<lparr>stdout = [], stderr = bigChunk, exitCode = Some 0\<rparr>)
   \<and> \<not> killed (run Codex ''90'' [StderrData bigChunk])
   \<and> signals (run Codex ''90'' [StderrData bigChunk, Close (Some 0)]) = []
   \<and> killed (run Gemini ''90'' [StdoutData bigChunk])
   \<and> signals (run Gemini ''90'' [StdoutData bigChunk]) = [SIGTERM]
   \<and> stdoutBuf (run Gemini ''90'' [StdoutData bigChunk, Close None]) = bigChunk
   \<and> runGemini ''90'' [StdoutData bigChunk, Close None]
       = Some (Rejected (''Gemini killed after 90s timeout. Partial: '' @ sliceLast 200 bigChunk))"
  by (simp add: bigChunk_overflows runQwen_def runCodex_def runGemini_def run_def
        initial_def onStdout_def onStderr_def onClose_def clearTimers_def clearTimeout_def
        settle_def kill_def timeoutMessage_def Let_def)

subsection \<open>The timers after the process has exited\<close>

lemma step_timer_not_rearmed:
  "timer s \<noteq> Pending \<Longrightarrow> timer (step sv secs s e) \<noteq> Pending"
  by (cases e; cases sv)
     (simp_all add: handler_defs onClose_def onError_def clearTimers_def clearTimeout_def
        settle_def)

lemma step_gemini_timers:
  "timer s \<noteq> Pending \<and> killTimer s \<noteq> Pending \<Longrightarrow>
     timer (step Gemini secs s e) \<noteq> Pending \<and> killTimer (step Gemini secs s e) \<noteq> Pending"
  by (cases e)
     (simp_all add: handler_defs onClose_def onError_def clearTimers_def clearTimeout_def
        settle_def)

lemma steps_timer_not_rearmed:
  "timer s \<noteq> Pending \<Longrightarrow> timer (foldl (step sv secs) s evs) \<noteq> Pending"
  by (induction evs arbitrary: s) (simp_all add: step_timer_not_rearmed)

lemma steps_gemini_timers:
  "timer s \<noteq> Pending \<and> killTimer s \<noteq> Pending \<Longrightarrow>
     timer (foldl (step Gemini secs) s evs) \<noteq> Pending
     \<and> killTimer (foldl (step Gemini secs) s evs) \<noteq> Pending"
proof (induction evs arbitrary: s)
  case Nil
  then show ?case by simp
next
  case (Cons e evs)
  show ?case using Cons.IH [OF step_gemini_timers [OF Cons.prems]] by simp
qed

lemma close_clears_timer:
  "timer (step sv secs s (Close code)) \<noteq> Pending \<and> timer (step sv secs s (SpawnError m)) \<noteq> Pending"
  by (cases sv) (simp_all add: onClose_def onError_def clearTimers_def clearTimeout_def settle_def Let_def)

lemma close_clears_gemini:
  "killTimer (step Gemini secs s (Close code)) \<noteq> Pending
   \<and> killTimer (step Gemini secs s (SpawnError m)) \<noteq> Pending"
  by (simp add: onClose_def onError_def clearTimers_def clearTimeout_def settle_def Let_def)

text \<open>
  The main timer is never armed once \<open>close\<close> or \<open>error\<close> has been handled, in all three
  servers; in \<open>runGemini\<close> the same holds of the escalation timer, whose handle is kept
  and cleared.
\<close>

lemma timers_after_exit:
  "isEnd e \<Longrightarrow>
     timer (run sv secs (evs @ e # evs')) \<noteq> Pending
     \<and> killTimer (run Gemini secs (evs @ e # evs')) \<noteq> Pending"
proof -
  assume e: "isEnd e"
  have 1: "timer (step sv secs (run sv secs evs) e) \<noteq> Pending" for sv
    using e close_clears_timer [of sv secs "run sv secs evs"] by (cases e) simp_all
  have 2: "killTimer (step Gemini secs (run Gemini secs evs) e) \<noteq> Pending"
    using e close_clears_gemini [of secs "run Gemini secs evs"] by (cases e) simp_all
  have a: "timer (run sv secs (evs @ e # evs')) \<noteq> Pending"
    using steps_timer_not_rearmed [OF 1 [of sv], of sv secs evs'] by (simp add: run_def)
  have b: "killTimer (run Gemini secs (evs @ e # evs')) \<noteq> Pending"
    using steps_gemini_timers [of "step Gemini secs (run Gemini secs evs) e" secs evs'] 1 [of Gemini] 2
    by (simp add: run_def)
  show ?thesis using a b by simp
qed

text \<open>
  A signal is sent only while the process runs: when the process has exited before the
  main timer fires, neither SIGTERM nor SIGKILL goes out.
\<close>

lemma no_signal_after_exit:
  "signals (run Qwen ''120'' [Exit, TimerFires, KillTimerFires]) = []
   \<and> \<not> procKilled (run Qwen ''120'' [Exit, TimerFires, KillTimerFires])
   \<and> killed (run Qwen ''120'' [Exit, TimerFires, KillTimerFires])
   \<and> signals (run Qwen ''120'' [TimerFires, Exit, KillTimerFires]) = [SIGTERM]"
  by code_simp

text \<open>
  Claim C3, on the code. In \<open>runQwen\<close> and \<open>runCodex\<close> the escalation timer is created
  without keeping its handle, and \<open>close\<close> clears the main timer only. After a timeout
  followed by the exit of the process the escalation timer is still armed, and its
  callback runs after the exit; in \<open>runGemini\<close>, on the same events, it is cleared and
  never runs.
\<close>

theorem escalation_timer_left_armed:
  "exited (run Qwen ''120'' [TimerFires, Close None])
   \<and> timer (run Qwen ''120'' [TimerFires, Close None]) = Fired
   \<and> killTimer (run Qwen ''120'' [TimerFires, Close None]) = Pending
   \<and> killTimer (run Qwen ''120'' [TimerFires, Close None, KillTimerFires]) = Fired
   \<and> exited (run Codex ''90'' [TimerFires, Close None])
   \<and> killTimer (run Codex ''90'' [TimerFires, Close None]) = Pending
   \<and> killTimer (run Codex ''90'' [TimerFires, Close None, KillTimerFires]) = Fired
   \<and> killTimer (run Gemini ''90'' [TimerFires, Close None]) = Cleared
   \<and> killTimer (run Gemini ''90'' [TimerFires, Close None, KillTimerFires]) = Cleared"
  by code_simp

section \<open>The tool handlers\<close>

subsection \<open>A handler on a run that closes\<close>

lemma detectError_not_timeout:
  "map_option errorType (detectError_openai m) \<noteq> Some ''TIMEOUT''
   \<and> map_option errorType (detectError_qwen m) \<noteq> Some ''TIMEOUT''
   \<and> map_option errorType (detectError_gemini m) \<noteq> Some ''TIMEOUT''"
  by (simp add: detectError_openai_def detectError_qwen_def detectError_gemini_def Let_def)

lemma qwen_chat_close:
  assumes "running evs"
  shows "qwen_chat secs (evs @ [Close code]) =
     Some (if TimerFires \<in> set evs then
             (let m = ''Qwen killed after '' @ secs @ ''s timeout. Partial: ''
                        @ sliceLast 200 (stdoutOf evs)
              in case detectError_qwen m of
                   Some k \<Rightarrow> Classified k
                 | None \<Rightarrow> Caught (''Qwen error: '' @ m))
           else
             (case detectError_qwen (stdoutOf evs @ stderrOf evs) of
                Some e \<Rightarrow> Classified e
              | None \<Rightarrow>
                  if trim (stdoutOf evs) = [] then
                    NoResponse (''No response from Qwen. Exit: '' @ showExitCode code
                      @ ''. Stderr: '' @ sliceLast 300 (stderrOf evs))
                  else Response (trim (stdoutOf evs))))"
  by (simp add: qwen_chat_def run_close_qwen [OF assms] Let_def split: option.splits)

lemma gemini_chat_close:
  assumes "running evs"
  shows "gemini_chat secs (evs @ [Close code]) =
     Some (if TimerFires \<in> set evs \<or> overflowed evs then
             (let m = ''Gemini killed after '' @ secs @ ''s timeout. Partial: ''
                        @ sliceLast 200 (stdoutOf evs)
              in case detectError_gemini m of
                   Some k \<Rightarrow> Classified k
                 | None \<Rightarrow> Caught (''Gemini error: '' @ m))
           else
             (case detectError_gemini (stdoutOf evs @ stderrOf evs) of
                Some e \<Rightarrow> Classified e
              | None \<Rightarrow>
                  if trim (stdoutOf evs) = [] then
                    NoResponse (''No response from Gemini. Exit: '' @ showExitCode code
                      @ ''. Stderr: '' @ sliceLast 300 (stderrOf evs))
                  else Response (trim (stdoutOf evs))))"
  by (simp add: gemini_chat_def run_close_gemini [OF assms] Let_def split: option.splits)

lemma openai_chat_close:
  assumes "running evs"
  shows "openai_chat secs (evs @ [Close code]) file =
     Some (if TimerFires \<in> set evs then
             (let m = ''Process killed after '' @ secs @ ''s timeout. Partial output: ''
                        @ sliceLast 200 (stdoutOf evs @ stderrOf evs)
              in case detectError_openai m of
                   Some k \<Rightarrow> Classified k
                 | None \<Rightarrow> Caught (''Codex error: '' @ m))
           else
             (case detectError_openai (stdoutOf evs @ stderrOf evs) of
                Some e \<Rightarrow> Classified e
              | None \<Rightarrow>
                  (let response = extractResponse (stdoutOf evs)
                                    (case file of Some c \<Rightarrow> c | None \<Rightarrow> [])
                   in if response = [] then
                        NoResponse (''No response from Codex. Exit code: '' @ showExitCode code
                          @ ''. Output: '' @ sliceLast 300 (stdoutOf evs @ stderrOf evs))
                      else Response response)))"
  by (simp add: openai_chat_def run_close_codex [OF assms] Let_def split: option.splits)

subsection \<open>Runs that time out\<close>

text \<open>
  Claim C1, as amended. When the run of a handler has timed out, the run is rejected with
  the timeout error, whose message ends with the last 200 code units of the captured
  output, and the handler returns an error result from its \<open>catch\<close> block: the rules of
  the server are applied to that message; when one matches, the result is the message of
  that rule, and otherwise it is \<open><Server> error:\<close> followed by the timeout message. No
  classifier gives the kind TIMEOUT, on any text.
\<close>

theorem timed_out_invocation:
  assumes "running evs" and "TimerFires \<in> set evs"
  shows "openai_chat secs (evs @ [Close code]) file =
       Some (let m = ''Process killed after '' @ secs @ ''s timeout. Partial output: ''
                        @ sliceLast 200 (stdoutOf evs @ stderrOf evs)
             in case detectError_openai m of
                  Some k \<Rightarrow> Classified k
                | None \<Rightarrow> Caught (''Codex error: '' @ m))
     \<and> qwen_chat secs (evs @ [Close code]) =
       Some (let m = ''Qwen killed after '' @ secs @ ''s timeout. Partial: ''
                        @ sliceLast 200 (stdoutOf evs)
             in case detectError_qwen m of
                  Some k \<Rightarrow> Classified k
                | None \<Rightarrow> Caught (''Qwen error: '' @ m))
     \<and> gemini_chat secs (evs @ [Close code]) =
       Some (let m = ''Gemini killed after '' @ secs @ ''s timeout. Partial: ''
                        @ sliceLast 200 (stdoutOf evs)
             in case detectError_gemini m of
                  Some k \<Rightarrow> Classified k
                | None \<Rightarrow> Caught (''Gemini error: '' @ m))
     \<and> map_option errorType (detectError_openai m) \<noteq> Some ''TIMEOUT''
     \<and> map_option errorType (detectError_qwen m) \<noteq> Some ''TIMEOUT''
     \<and> map_option errorType (detectError_gemini m) \<noteq> Some ''TIMEOUT''"
  using openai_chat_close [OF assms(1), of secs code "file"] qwen_chat_close [OF assms(1), of secs code]
    gemini_chat_close [OF assms(1), of secs code] assms(2) detectError_not_timeout [of m]
  by (simp only: if_True simp_thms)

text \<open>
  Claim C1 as stated fails: classification is not skipped on a timed-out run. With a
  quota message in the captured output the result is the one of kind QUOTA_EXCEEDED; with
  no output it is an unclassified error.
\<close>

theorem timed_out_invocation_counterexample:
  "qwen_chat ''120'' [StdoutData ''Error: quota exceeded'', TimerFires, Close None]
     = Some (Classified \<lparr>isError = True, errorType = ''QUOTA_EXCEEDED'',
          message = ''Qwen API quota exceeded. Check your DashScope account limits.''\<rparr>)
   \<and> openai_chat ''90'' [StderrData ''You have hit your usage limit'', TimerFires, Close None] None
     = Some (Classified \<lparr>isError = True, errorType = ''QUOTA_EXCEEDED'',
          message = ''Codex usage limit reached. Credits reset at: unknown. Use a fallback provider.''\<rparr>)
   \<and> qwen_chat ''120'' [TimerFires, Close None]
     = Some (Caught ''Qwen error: Qwen killed after 120s timeout. Partial: '')"
  by code_simp

theorem timed_out_invocation_witness:
  "running [StdoutData ''Error: quota exceeded'', TimerFires]
   \<and> TimerFires \<in> set [StdoutData ''Error: quota exceeded'', TimerFires]
   \<and> qwen_chat ''120'' ([StdoutData ''Error: quota exceeded'', TimerFires] @ [Close None])
     = Some (Classified \<lparr>isError = True, errorType = ''QUOTA_EXCEEDED'',
          message = ''Qwen API quota exceeded. Check your DashScope account limits.''\<rparr>)
   \<and> openai_chat ''120'' ([StdoutData ''Error: quota exceeded'', TimerFires] @ [Close None]) None
     = Some (Caught ''Codex error: Process killed after 120s timeout. Partial output: Error: quota exceeded'')"
proof -
  have r: "running [StdoutData ''Error: quota exceeded'', TimerFires]" by code_simp
  have i: "TimerFires \<in> set [StdoutData ''Error: quota exceeded'', TimerFires]" by simp
  have q: "(let m = ''Qwen killed after '' @ ''120'' @ ''s timeout. Partial: ''
                        @ sliceLast 200 (stdoutOf [StdoutData ''Error: quota exceeded'', TimerFires])
            in case detectError_qwen m of
                  Some k \<Rightarrow> Classified k
                | None \<Rightarrow> Caught (''Qwen error: '' @ m))
     = Classified \<lparr>isError = True, errorType = ''QUOTA_EXCEEDED'',
          message = ''Qwen API quota exceeded. Check your DashScope account limits.''\<rparr>"
    by code_simp
  have c: "(let m = ''Process killed after '' @ ''120'' @ ''s timeout. Partial output: ''
                @ sliceLast 200 (stdoutOf [StdoutData ''Error: quota exceeded'', TimerFires]
                     @ stderrOf [StdoutData ''Error: quota exceeded'', TimerFires])
            in case detectError_openai m of
                  Some k \<Rightarrow> Classified k
                | None \<Rightarrow> Caught (''Codex error: '' @ m))
     = Caught ''Codex error: Process killed after 120s timeout. Partial output: Error: quota exceeded''"
    by code_simp
  show ?thesis
    using timed_out_invocation [OF r i, of "''120''" None None] r i
    by (simp only: q c simp_thms)
qed

subsection \<open>Error patterns in a response\<close>

lemma quota_in_answer_qwen:
  "qwen_chat secs ([StdoutData ''To stay below the rate limit, retry with backoff.'']
       @ [Close (Some 0)])
     = Some (Classified \<lparr>isError = True, errorType = ''QUOTA_EXCEEDED'',
          message = ''Qwen API quota exceeded. Check your DashScope account limits.''\<rparr>)"
proof -
  have r: "running [StdoutData ''To stay below the rate limit, retry with backoff.'']"
    by code_simp
  have d: "detectError_qwen (stdoutOf [StdoutData ''To stay below the rate limit, retry with backoff.'']
             @ stderrOf [StdoutData ''To stay below the rate limit, retry with backoff.''])
     = Some \<lparr>isError = True, errorType = ''QUOTA_EXCEEDED'',
          message = ''Qwen API quota exceeded. Check your DashScope account limits.''\<rparr>"
    by code_simp
  show ?thesis
    by (simp only: qwen_chat_close [OF r] d) simp
qed

lemma quota_in_answer_gemini:
  "gemini_chat secs ([StdoutData ''To stay below the rate limit, retry with backoff.'']
       @ [Close (Some 0)])
     = Some (Classified \<lparr>isError = True, errorType = ''QUOTA_EXCEEDED'',
          message = ''Gemini daily quota exceeded. Free tier: 1000 req/day. Try again tomorrow or use a fallback provider.''\<rparr>)"
proof -
  have r: "running [StdoutData ''To stay below the rate limit, retry with backoff.'']"
    by code_simp
  have o: "\<not> overflowed [StdoutData ''To stay below the rate limit, retry with backoff.'']"
    by (simp add: overflowed_def MAX_BUFFER_def)
  have d: "detectError_gemini (stdoutOf [StdoutData ''To stay below the rate limit, retry with backoff.'']
             @ stderrOf [StdoutData ''To stay below the rate limit, retry with backoff.''])
     = Some \<lparr>isError = True, errorType = ''QUOTA_EXCEEDED'',
          message = ''Gemini daily quota exceeded. Free tier: 1000 req/day. Try again tomorrow or use a fallback provider.''\<rparr>"
    by code_simp
  show ?thesis
    by (simp only: gemini_chat_close [OF r] d o) simp
qed

lemma quota_in_answer_openai:
  "openai_chat secs ([StdoutData ''Throttle clients before they reach the usage limit.'']
       @ [Close (Some 0)]) (Some ''Throttle clients before they reach the usage limit.'')
     = Some (Classified \<lparr>isError = True, errorType = ''QUOTA_EXCEEDED'',
          message = ''Codex usage limit reached. Credits reset at: unknown. Use a fallback provider.''\<rparr>)"
proof -
  have r: "running [StdoutData ''Throttle clients before they reach the usage limit.'']"
    by code_simp
  have d: "detectError_openai (stdoutOf [StdoutData ''Throttle clients before they reach the usage limit.'']
             @ stderrOf [StdoutData ''Throttle clients before they reach the usage limit.''])
     = Some \<lparr>isError = True, errorType = ''QUOTA_EXCEEDED'',
          message = ''Codex usage limit reached. Credits reset at: unknown. Use a fallback provider.''\<rparr>"
    by code_simp
  show ?thesis
    by (simp only: openai_chat_close [OF r] d) simp
qed

lemma answers_not_empty:
  "trim (stdoutOf [StdoutData ''To stay below the rate limit, retry with backoff.'']) \<noteq> []
   \<and> extractResponse (stdoutOf [StdoutData ''Throttle clients before they reach the usage limit.''])
        ''Throttle clients before they reach the usage limit.'' \<noteq> []"
  by code_simp

text \<open>
  Claim C7. On every run that completes, whatever its exit code, the classifier is applied
  to stdout followed by stderr, and a match makes the handler return the error of the
  matched rule in place of the response. So for each of the three handlers there is a run
  that exits with code 0 and a response that is not empty, in which the response itself
  mentions a limit, and the result is the error of kind QUOTA_EXCEEDED.
\<close>

theorem error_pattern_in_response:
  "(running evs \<and> TimerFires \<notin> set evs
      \<and> detectError_qwen (stdoutOf evs @ stderrOf evs) = Some e
      \<longrightarrow> qwen_chat secs (evs @ [Close code]) = Some (Classified e))
   \<and> (running evs \<and> TimerFires \<notin> set evs \<and> \<not> overflowed evs
      \<and> detectError_gemini (stdoutOf evs @ stderrOf evs) = Some e
      \<longrightarrow> gemini_chat secs (evs @ [Close code]) = Some (Classified e))
   \<and> (running evs \<and> TimerFires \<notin> set evs
      \<and> detectError_openai (stdoutOf evs @ stderrOf evs) = Some e
      \<longrightarrow> openai_chat secs (evs @ [Close code]) file = Some (Classified e))
   \<and> (\<exists>evs' q. running evs' \<and> TimerFires \<notin> set evs' \<and> trim (stdoutOf evs') \<noteq> []
        \<and> qwen_chat secs (evs' @ [Close (Some 0)]) = Some (Classified q)
        \<and> errorType q = ''QUOTA_EXCEEDED'')
   \<and> (\<exists>evs' q. running evs' \<and> TimerFires \<notin> set evs' \<and> trim (stdoutOf evs') \<noteq> []
        \<and> gemini_chat secs (evs' @ [Close (Some 0)]) = Some (Classified q)
        \<and> errorType q = ''QUOTA_EXCEEDED'')
   \<and> (\<exists>evs' c q. running evs' \<and> TimerFires \<notin> set evs'
        \<and> extractResponse (stdoutOf evs') c \<noteq> []
        \<and> openai_chat secs (evs' @ [Close (Some 0)]) (Some c) = Some (Classified q)
        \<and> errorType q = ''QUOTA_EXCEEDED'')"
proof -
  have a: "running evs \<and> TimerFires \<notin> set evs
      \<and> detectError_qwen (stdoutOf evs @ stderrOf evs) = Some e
      \<longrightarrow> qwen_chat secs (evs @ [Close code]) = Some (Classified e)"
    by (simp add: qwen_chat_close)
  have b: "running evs \<and> TimerFires \<notin> set evs \<and> \<not> overflowed evs
      \<and> detectError_gemini (stdoutOf evs @ stderrOf evs) = Some e
      \<longrightarrow> gemini_chat secs (evs @ [Close code]) = Some (Classified e)"
    by (simp add: gemini_chat_close)
  have c: "running evs \<and> TimerFires \<notin> set evs
      \<and> detectError_openai (stdoutOf evs @ stderrOf evs) = Some e
      \<longrightarrow> openai_chat secs (evs @ [Close code]) file = Some (Classified e)"
    by (simp add: openai_chat_close)
  have r1: "running [StdoutData ''To stay below the rate limit, retry with backoff.'']
      \<and> TimerFires \<notin> set [StdoutData ''To stay below the rate limit, retry with backoff.'']"
    by (simp add: running_def)
  have r2: "running [StdoutData ''Throttle clients before they reach the usage limit.'']
      \<and> TimerFires \<notin> set [StdoutData ''Throttle clients before they reach the usage limit.'']"
    by (simp add: running_def)
  have d: "\<exists>evs' q. running evs' \<and> TimerFires \<notin> set evs' \<and> trim (stdoutOf evs') \<noteq> []
        \<and> qwen_chat secs (evs' @ [Close (Some 0)]) = Some (Classified q)
        \<and> errorType q = ''QUOTA_EXCEEDED''"
    apply (rule exI [of _ "[StdoutData ''To stay below the rate limit, retry with backoff.'']"])
    apply (rule exI [of _ "\<lparr>isError = True, errorType = ''QUOTA_EXCEEDED'',
          message = ''Qwen API quota exceeded. Check your DashScope account limits.''\<rparr>"])
    using r1 answers_not_empty quota_in_answer_qwen [of secs]
    apply (simp only: simp_thms)
    apply simp
    done
  have e: "\<exists>evs' q. running evs' \<and> TimerFires \<notin> set evs' \<and> trim (stdoutOf evs') \<noteq> []
        \<and> gemini_chat secs (evs' @ [Close (Some 0)]) = Some (Classified q)
        \<and> errorType q = ''QUOTA_EXCEEDED''"
    apply (rule exI [of _ "[StdoutData ''To stay below the rate limit, retry with backoff.'']"])
    apply (rule exI [of _ "\<lparr>isError = True, errorType = ''QUOTA_EXCEEDED'',
          message = ''Gemini daily quota exceeded. Free tier: 1000 req/day. Try again tomorrow or use a fallback provider.''\<rparr>"])
    using r1 answers_not_empty quota_in_answer_gemini [of secs]
    apply (simp only: simp_thms)
    apply simp
    done
  have f: "\<exists>evs' c q. running evs' \<and> TimerFires \<notin> set evs'
        \<and> extractResponse (stdoutOf evs') c \<noteq> []
        \<and> openai_chat secs (evs' @ [Close (Some 0)]) (Some c) = Some (Classified q)
        \<and> errorType q = ''QUOTA_EXCEEDED''"
    apply (rule exI [of _ "[StdoutData ''Throttle clients before they reach the usage limit.'']"])
    apply (rule exI [of _ "''Throttle clients before they reach the usage limit.''"])
    apply (rule exI [of _ "\<lparr>isError = True, errorType = ''QUOTA_EXCEEDED'',
          message = ''Codex usage limit reached. Credits reset at: unknown. Use a fallback provider.''\<rparr>"])
    using r2 answers_not_empty quota_in_answer_openai [of secs]
    apply (simp only: simp_thms)
    apply simp
    done
  show ?thesis
    using a b c d e f by (simp only: simp_thms)
qed

theorem error_pattern_in_response_witness:
  "running [StdoutData ''To stay below the rate limit, retry with backoff.'']
   \<and> TimerFires \<notin> set [StdoutData ''To stay below the rate limit, retry with backoff.'']
   \<and> \<not> overflowed [StdoutData ''To stay below the rate limit, retry with backoff.'']
   \<and> qwen_chat ''120'' ([StdoutData ''To stay below the rate limit, retry with backoff.'']
         @ [Close (Some 0)])
       = Some (Classified \<lparr>isError = True, errorType = ''QUOTA_EXCEEDED'',
            message = ''Qwen API quota exceeded. Check your DashScope account limits.''\<rparr>)
   \<and> gemini_chat ''90'' ([StdoutData ''To stay below the rate limit, retry with backoff.'']
         @ [Close (Some 0)])
       = Some (Classified \<lparr>isError = True, errorType = ''QUOTA_EXCEEDED'',
            message = ''Gemini daily quota exceeded. Free tier: 1000 req/day. Try again tomorrow or use a fallback provider.''\<rparr>)
   \<and> running [StdoutData ''Throttle clients before they reach the usage limit.'']
   \<and> TimerFires \<notin> set [StdoutData ''Throttle clients before they reach the usage limit.'']
   \<and> openai_chat ''90'' ([StdoutData ''Throttle clients before they reach the usage limit.'']
         @ [Close (Some 0)]) (Some ''Throttle clients before they reach the usage limit.'')
       = Some (Classified \<lparr>isError = True, errorType = ''QUOTA_EXCEEDED'',
            message = ''Codex usage limit reached. Credits reset at: unknown. Use a fallback provider.''\<rparr>)"
proof -
  have r1: "running [StdoutData ''To stay below the rate limit, retry with backoff.'']"
    and n1: "TimerFires \<notin> set [StdoutData ''To stay below the rate limit, retry with backoff.'']"
    and r2: "running [StdoutData ''Throttle clients before they reach the usage limit.'']"
    and n2: "TimerFires \<notin> set [StdoutData ''Throttle clients before they reach the usage limit.'']"
    by (simp_all add: running_def)
  have o1: "\<not> overflowed [StdoutData ''To stay below the rate limit, retry with backoff.'']"
    by (simp add: overflowed_def MAX_BUFFER_def)
  have dq: "detectError_qwen (stdoutOf [StdoutData ''To stay below the rate limit, retry with backoff.'']
             @ stderrOf [StdoutData ''To stay below the rate limit, retry with backoff.''])
     = Some \<lparr>isError = True, errorType = ''QUOTA_EXCEEDED'',
          message = ''Qwen API quota exceeded. Check your DashScope account limits.''\<rparr>"
    by code_simp
  have dg: "detectError_gemini (stdoutOf [StdoutData ''To stay below the rate limit, retry with backoff.'']
             @ stderrOf [StdoutData ''To stay below the rate limit, retry with backoff.''])
     = Some \<lparr>isError = True, errorType = ''QUOTA_EXCEEDED'',
          message = ''Gemini daily quota exceeded. Free tier: 1000 req/day. Try again tomorrow or use a fallback provider.''\<rparr>"
    by code_simp
  have dc: "detectError_openai (stdoutOf [StdoutData ''Throttle clients before they reach the usage limit.'']
             @ stderrOf [StdoutData ''Throttle clients before they reach the usage limit.''])
     = Some \<lparr>isError = True, errorType = ''QUOTA_EXCEEDED'',
          message = ''Codex usage limit reached. Credits reset at: unknown. Use a fallback provider.''\<rparr>"
    by code_simp
  have q: "qwen_chat ''120'' ([StdoutData ''To stay below the rate limit, retry with backoff.'']
         @ [Close (Some 0)])
       = Some (Classified \<lparr>isError = True, errorType = ''QUOTA_EXCEEDED'',
            message = ''Qwen API quota exceeded. Check your DashScope account limits.''\<rparr>)"
    using error_pattern_in_response [THEN conjunct1, rule_format, OF conjI [OF r1 conjI [OF n1 dq]]] .
  have g: "gemini_chat ''90'' ([StdoutData ''To stay below the rate limit, retry with backoff.'']
         @ [Close (Some 0)])
       = Some (Classified \<lparr>isError = True, errorType = ''QUOTA_EXCEEDED'',
            message = ''Gemini daily quota exceeded. Free tier: 1000 req/day. Try again tomorrow or use a fallback provider.''\<rparr>)"
    using error_pattern_in_response [THEN conjunct2, THEN conjunct1, rule_format,
        OF conjI [OF r1 conjI [OF n1 conjI [OF o1 dg]]]] .
  have c: "openai_chat ''90'' ([StdoutData ''Throttle clients before they reach the usage limit.'']
         @ [Close (Some 0)]) (Some ''Throttle clients before they reach the usage limit.'')
       = Some (Classified \<lparr>isError = True, errorType = ''QUOTA_EXCEEDED'',
            message = ''Codex usage limit reached. Credits reset at: unknown. Use a fallback provider.''\<rparr>)"
    using error_pattern_in_response [THEN conjunct2, THEN conjunct2, THEN conjunct1, rule_format,
        OF conjI [OF r2 conjI [OF n2 dc]]] .
  show ?thesis
    using r1 n1 o1 q g r2 n2 c by (simp only: simp_thms)
qed

subsection \<open>Empty responses\<close>

lemma detectError_empty:
  "detectError_qwen [] = None \<and> detectError_gemini [] = None \<and> detectError_openai [] = None"
  by code_simp

lemma extractResponse_blank:
  "trim c = [] \<Longrightarrow> extractResponse [] c = []"
proof -
  have "trim [] = []" "trim [] \<noteq> ''codex''" by code_simp+
  then show "trim c = [] \<Longrightarrow> extractResponse [] c = []"
    by (simp add: extractResponse_def)
qed

lemma blank_constants:
  "trim [] = [] \<and> showExitCode (Some 0) = ''0'' \<and> sliceLast 300 [] = []"
  by code_simp

text \<open>
  Claim C8, as amended. On a run that completes with no classified error, the handler
  returns the error result \<open>No response from <Server>\<close> when the extracted response is
  empty, and the response otherwise. The response is the trimmed stdout in \<open>qwen_chat\<close>
  and \<open>gemini_chat\<close>; in \<open>openai_chat\<close> it is the trimmed output file when that is not
  blank, and is extracted from stdout otherwise. In particular a run with exit code 0 and
  empty stdout and stderr gives the no-response error in \<open>qwen_chat\<close> and
  \<open>gemini_chat\<close>, and in \<open>openai_chat\<close> when the output file is missing or blank.
\<close>

theorem empty_response:
  assumes "running evs" and "TimerFires \<notin> set evs"
  shows "(detectError_qwen (stdoutOf evs @ stderrOf evs) = None \<longrightarrow>
        qwen_chat secs (evs @ [Close code]) =
          Some (if trim (stdoutOf evs) = [] then
                  NoResponse (''No response from Qwen. Exit: '' @ showExitCode code
                    @ ''. Stderr: '' @ sliceLast 300 (stderrOf evs))
                else Response (trim (stdoutOf evs))))
     \<and> (\<not> overflowed evs \<and> detectError_gemini (stdoutOf evs @ stderrOf evs) = None \<longrightarrow>
        gemini_chat secs (evs @ [Close code]) =
          Some (if trim (stdoutOf evs) = [] then
                  NoResponse (''No response from Gemini. Exit: '' @ showExitCode code
                    @ ''. Stderr: '' @ sliceLast 300 (stderrOf evs))
                else Response (trim (stdoutOf evs))))
     \<and> (detectError_openai (stdoutOf evs @ stderrOf evs) = None \<longrightarrow>
        openai_chat secs (evs @ [Close code]) file =
          Some (if extractResponse (stdoutOf evs) (case file of Some c \<Rightarrow> c | None \<Rightarrow> []) = []
                then NoResponse (''No response from Codex. Exit code: '' @ showExitCode code
                    @ ''. Output: '' @ sliceLast 300 (stdoutOf evs @ stderrOf evs))
                else Response (extractResponse (stdoutOf evs)
                                 (case file of Some c \<Rightarrow> c | None \<Rightarrow> []))))
     \<and> (stdoutOf evs = [] \<and> stderrOf evs = [] \<longrightarrow>
        qwen_chat secs (evs @ [Close (Some 0)])
          = Some (NoResponse ''No response from Qwen. Exit: 0. Stderr: '')
        \<and> gemini_chat secs (evs @ [Close (Some 0)])
          = Some (NoResponse ''No response from Gemini. Exit: 0. Stderr: ''))
     \<and> (stdoutOf evs = [] \<and> stderrOf evs = []
          \<and> trim (case file of Some c \<Rightarrow> c | None \<Rightarrow> []) = [] \<longrightarrow>
        openai_chat secs (evs @ [Close (Some 0)]) file
          = Some (NoResponse ''No response from Codex. Exit code: 0. Output: ''))"
proof -
  note q = qwen_chat_close [OF assms(1), of secs] and g = gemini_chat_close [OF assms(1), of secs]
    and c = openai_chat_close [OF assms(1), of secs]
  have 1: "detectError_qwen (stdoutOf evs @ stderrOf evs) = None \<longrightarrow>
        qwen_chat secs (evs @ [Close code]) =
          Some (if trim (stdoutOf evs) = [] then
                  NoResponse (''No response from Qwen. Exit: '' @ showExitCode code
                    @ ''. Stderr: '' @ sliceLast 300 (stderrOf evs))
                else Response (trim (stdoutOf evs)))"
    using assms(2) by (simp add: q)
  have 2: "\<not> overflowed evs \<and> detectError_gemini (stdoutOf evs @ stderrOf evs) = None \<longrightarrow>
        gemini_chat secs (evs @ [Close code]) =
          Some (if trim (stdoutOf evs) = [] then
                  NoResponse (''No response from Gemini. Exit: '' @ showExitCode code
                    @ ''. Stderr: '' @ sliceLast 300 (stderrOf evs))
                else Response (trim (stdoutOf evs)))"
    using assms(2) by (simp add: g)
  have 3: "detectError_openai (stdoutOf evs @ stderrOf evs) = None \<longrightarrow>
        openai_chat secs (evs @ [Close code]) file =
          Some (if extractResponse (stdoutOf evs) (case file of Some c \<Rightarrow> c | None \<Rightarrow> []) = []
                then NoResponse (''No response from Codex. Exit code: '' @ showExitCode code
                    @ ''. Output: '' @ sliceLast 300 (stdoutOf evs @ stderrOf evs))
                else Response (extractResponse (stdoutOf evs)
                                 (case file of Some c \<Rightarrow> c | None \<Rightarrow> [])))"
    using assms(2) by (simp add: c Let_def)
  have ov: "stdoutOf evs = [] \<and> stderrOf evs = [] \<Longrightarrow> \<not> overflowed evs"
    by (simp add: overflowed_def)
  have 4: "stdoutOf evs = [] \<and> stderrOf evs = [] \<longrightarrow>
        qwen_chat secs (evs @ [Close (Some 0)])
          = Some (NoResponse ''No response from Qwen. Exit: 0. Stderr: '')
        \<and> gemini_chat secs (evs @ [Close (Some 0)])
          = Some (NoResponse ''No response from Gemini. Exit: 0. Stderr: '')"
    using assms(2) ov detectError_empty blank_constants by (simp add: q g)
  have 5: "stdoutOf evs = [] \<and> stderrOf evs = []
          \<and> trim (case file of Some c \<Rightarrow> c | None \<Rightarrow> []) = [] \<longrightarrow>
        openai_chat secs (evs @ [Close (Some 0)]) file
          = Some (NoResponse ''No response from Codex. Exit code: 0. Output: '')"
    using assms(2) detectError_empty blank_constants
      extractResponse_blank [of "case file of Some c \<Rightarrow> c | None \<Rightarrow> []"]
    by (simp add: c Let_def)
  show ?thesis using 1 2 3 4 5 by (simp only: simp_thms)
qed

text \<open>
  Claim C8 as stated fails for \<open>openai_chat\<close>: with exit code 0 and empty stdout and
  stderr, a response in the output file is returned as a success.
\<close>

theorem empty_response_counterexample:
  "stdoutOf [] = [] \<and> stderrOf [] = []
   \<and> openai_chat ''90'' [Close (Some 0)] (Some ''The answer is 42.'')
       = Some (Response ''The answer is 42.'')"
  by code_simp

theorem empty_response_witness:
  "running [] \<and> TimerFires \<notin> set [] \<and> stdoutOf [] = [] \<and> stderrOf [] = []
   \<and> trim (case None of Some c \<Rightarrow> c | None \<Rightarrow> []) = []
   \<and> qwen_chat ''120'' ([] @ [Close (Some 0)])
       = Some (NoResponse ''No response from Qwen. Exit: 0. Stderr: '')
   \<and> gemini_chat ''120'' ([] @ [Close (Some 0)])
       = Some (NoResponse ''No response from Gemini. Exit: 0. Stderr: '')
   \<and> openai_chat ''120'' ([] @ [Close (Some 0)]) None
       = Some (NoResponse ''No response from Codex. Exit code: 0. Output: '')
   \<and> running [StdoutData '' hello '', StderrData ''warn'']
   \<and> TimerFires \<notin> set [StdoutData '' hello '', StderrData ''warn'']
   \<and> \<not> overflowed [StdoutData '' hello '', StderrData ''warn'']
   \<and> qwen_chat ''120'' ([StdoutData '' hello '', StderrData ''warn''] @ [Close (Some 1)])
       = Some (Response ''hello'')
   \<and> gemini_chat ''120'' ([StdoutData '' hello '', StderrData ''warn''] @ [Close (Some 1)])
       = Some (Response ''hello'')
   \<and> openai_chat ''120'' ([StdoutData '' hello '', StderrData ''warn''] @ [Close (Some 1)]) None
       = Some (Response ''hello'')"
proof -
  have r0: "running []" and n0: "TimerFires \<notin> set []" by (simp_all add: running_def)
  have e0: "stdoutOf [] = [] \<and> stderrOf [] = []" by simp
  have f0: "stdoutOf [] = [] \<and> stderrOf [] = []
      \<and> trim (case None of Some c \<Rightarrow> c | None \<Rightarrow> []) = []" by code_simp
  have r1: "running [StdoutData '' hello '', StderrData ''warn'']"
    and n1: "TimerFires \<notin> set [StdoutData '' hello '', StderrData ''warn'']"
    by (simp_all add: running_def)
  have o1: "\<not> overflowed [StdoutData '' hello '', StderrData ''warn'']"
    by (simp add: overflowed_def MAX_BUFFER_def)
  have d1: "detectError_qwen (stdoutOf [StdoutData '' hello '', StderrData ''warn'']
        @ stderrOf [StdoutData '' hello '', StderrData ''warn'']) = None"
    "detectError_gemini (stdoutOf [StdoutData '' hello '', StderrData ''warn'']
        @ stderrOf [StdoutData '' hello '', StderrData ''warn'']) = None"
    "detectError_openai (stdoutOf [StdoutData '' hello '', StderrData ''warn'']
        @ stderrOf [StdoutData '' hello '', StderrData ''warn'']) = None"
    by code_simp+
  have v: "trim (stdoutOf [StdoutData '' hello '', StderrData ''warn'']) = ''hello''"
    "extractResponse (stdoutOf [StdoutData '' hello '', StderrData ''warn''])
       (case None of Some c \<Rightarrow> c | None \<Rightarrow> []) = ''hello''"
    by code_simp+
  note E0 = empty_response [OF r0 n0, of "''120''" "Some 0" None]
  note E1 = empty_response [OF r1 n1, of "''120''" "Some 1" None]
  have a: "qwen_chat ''120'' ([] @ [Close (Some 0)])
       = Some (NoResponse ''No response from Qwen. Exit: 0. Stderr: '')
     \<and> gemini_chat ''120'' ([] @ [Close (Some 0)])
       = Some (NoResponse ''No response from Gemini. Exit: 0. Stderr: '')"
    using E0 [THEN conjunct2, THEN conjunct2, THEN conjunct2, THEN conjunct1, rule_format, OF e0] .
  have b: "openai_chat ''120'' ([] @ [Close (Some 0)]) None
       = Some (NoResponse ''No response from Codex. Exit code: 0. Output: '')"
    using E0 [THEN conjunct2, THEN conjunct2, THEN conjunct2, THEN conjunct2, rule_format, OF f0] .
  have c: "qwen_chat ''120'' ([StdoutData '' hello '', StderrData ''warn''] @ [Close (Some 1)])
       = Some (Response ''hello'')"
    using E1 [THEN conjunct1, rule_format, OF d1(1)] by (simp only: v) simp
  have d: "gemini_chat ''120'' ([StdoutData '' hello '', StderrData ''warn''] @ [Close (Some 1)])
       = Some (Response ''hello'')"
    using E1 [THEN conjunct2, THEN conjunct1, rule_format, OF conjI [OF o1 d1(2)]]
    by (simp only: v) simp
  have e: "openai_chat ''120'' ([StdoutData '' hello '', StderrData ''warn''] @ [Close (Some 1)]) None
       = Some (Response ''hello'')"
    using E1 [THEN conjunct2, THEN conjunct2, THEN conjunct1, rule_format, OF d1(3)]
    by (simp only: v) simp
  show ?thesis
    using r0 n0 f0 a b r1 n1 o1 c d e by (simp only: simp_thms)
qed

section \<open>The chain walk\<close>

lemma chainRun_terminal:
  "fst st = SUCCEEDED \<or> fst st = EXHAUSTED \<Longrightarrow> chainRun chain req st = st"
  by (simp add: chainRun.simps)

lemma chainRun_trying_fail:
  assumes "\<forall>a\<in>set chain. isFailure (fst (invoke a req))"
  shows "i < length chain \<Longrightarrow>
     chainRun chain req (TRYING i, log) = (EXHAUSTED, log @ map (attempt req) (drop i chain))"
proof (induction "length chain - i" arbitrary: i log)
  case 0
  then show ?case by simp
next
  case (Suc n)
  have mem: "chain ! i \<in> set chain" using Suc.prems by simp
  then have "isFailure (attemptResult (attempt req (chain ! i)))"
    using assms by (simp add: attempt_def)
  then obtain e where f: "attemptResult (attempt req (chain ! i)) = Failure e"
    by (cases "attemptResult (attempt req (chain ! i))") (simp_all add: isFailure_def)
  have dr: "drop i chain = chain ! i # drop (Suc i) chain"
    using Suc.prems by (simp add: Cons_nth_drop_Suc)
  show ?case
  proof (cases "Suc i < length chain")
    case True
    have n: "n = length chain - Suc i" using Suc.hyps(2) by simp
    have st: "walkStep chain req (TRYING i, log) = (TRYING (Suc i), log @ [attempt req (chain ! i)])"
      using Suc.prems True f by (simp add: walkStep_def Let_def)
    have "chainRun chain req (TRYING i, log)
        = chainRun chain req (TRYING (Suc i), log @ [attempt req (chain ! i)])"
      by (subst chainRun.simps) (simp add: st)
    also have "\<dots> = (EXHAUSTED, (log @ [attempt req (chain ! i)])
                        @ map (attempt req) (drop (Suc i) chain))"
      using Suc.hyps(1) [OF n True] .
    finally show ?thesis by (simp add: dr)
  next
    case False
    then have last: "drop (Suc i) chain = []" by simp
    have st: "walkStep chain req (TRYING i, log) = (EXHAUSTED, log @ [attempt req (chain ! i)])"
      using Suc.prems False f by (simp add: walkStep_def Let_def)
    have "chainRun chain req (TRYING i, log)
        = chainRun chain req (EXHAUSTED, log @ [attempt req (chain ! i)])"
      by (subst chainRun.simps) (simp add: st)
    then show ?thesis by (simp add: chainRun_terminal dr last)
  qed
qed

lemma chainWalk_all_fail:
  assumes "chain \<noteq> []" and "\<forall>a\<in>set chain. isFailure (fst (invoke a req))"
  shows "chainWalk chain req = (EXHAUSTED, map (attempt req) chain)"
proof -
  have "chainWalk chain req = chainRun chain req (TRYING 0, [])"
    unfolding chainWalk_def by (subst chainRun.simps) (simp add: walkStep_def)
  then show ?thesis
    using chainRun_trying_fail [OF assms(2), of 0 "[]"] assms(1) by simp
qed

text \<open>
  Claim C5. For a chain of length \<open>n\<close>, not empty, in which every member fails, the walk
  ends in \<open>EXHAUSTED\<close> after exactly \<open>n\<close> attempts, one for each member in the order of
  the chain; the attempt log has length \<open>n\<close> and the terminal result is the failure of
  the last member.
\<close>

theorem chain_all_fail:
  assumes "chain \<noteq> []" and "\<forall>a\<in>set chain. isFailure (fst (invoke a req))"
  shows "fst (chainWalk chain req) = EXHAUSTED
     \<and> snd (chainWalk chain req) = map (attempt req) chain
     \<and> length (snd (chainWalk chain req)) = length chain
     \<and> map agentName (snd (chainWalk chain req)) = map adapterName chain
     \<and> terminalResult (chainWalk chain req) = Some (fst (invoke (last chain) req))
     \<and> isFailure (fst (invoke (last chain) req))"
proof -
  have w: "chainWalk chain req = (EXHAUSTED, map (attempt req) chain)"
    using chainWalk_all_fail [OF assms] .
  obtain x xs where m: "map (attempt req) chain = x # xs"
    using assms(1) by (cases "map (attempt req) chain") simp_all
  have la: "last (map (attempt req) chain) = attempt req (last chain)"
    using assms(1) by (simp add: last_map)
  have "terminalResult (EXHAUSTED, map (attempt req) chain)
      = Some (attemptResult (last (x # xs)))"
    by (simp only: terminalResult_def snd_conv m list.case)
  also have "\<dots> = Some (attemptResult (attempt req (last chain)))"
    by (simp only: m [symmetric] la)
  finally have t: "terminalResult (chainWalk chain req) = Some (fst (invoke (last chain) req))"
    by (simp add: w attempt_def)
  have n: "map agentName (map (attempt req) chain) = map adapterName chain"
    by (simp add: attempt_def)
  have l: "isFailure (fst (invoke (last chain) req))"
    using assms by simp
  show ?thesis using t n l by (simp add: w)
qed

theorem chain_all_fail_witness:
  "[failingAgent ''openai'' QUOTA_EXCEEDED, failingAgent ''qwen'' TIMEOUT,
      failingAgent ''deepseek'' AUTH_REQUIRED] \<noteq> []
   \<and> isFailure (fst (invoke (failingAgent ''openai'' QUOTA_EXCEEDED) ()))
   \<and> isFailure (fst (invoke (failingAgent ''qwen'' TIMEOUT) ()))
   \<and> isFailure (fst (invoke (failingAgent ''deepseek'' AUTH_REQUIRED) ()))
   \<and> fst (chainWalk [failingAgent ''openai'' QUOTA_EXCEEDED, failingAgent ''qwen'' TIMEOUT,
          failingAgent ''deepseek'' AUTH_REQUIRED] ()) = EXHAUSTED
   \<and> length (snd (chainWalk [failingAgent ''openai'' QUOTA_EXCEEDED, failingAgent ''qwen'' TIMEOUT,
          failingAgent ''deepseek'' AUTH_REQUIRED] ())) = 3
   \<and> map agentName (snd (chainWalk [failingAgent ''openai'' QUOTA_EXCEEDED,
          failingAgent ''qwen'' TIMEOUT, failingAgent ''deepseek'' AUTH_REQUIRED] ()))
       = [''openai'', ''qwen'', ''deepseek'']
   \<and> terminalResult (chainWalk [failingAgent ''openai'' QUOTA_EXCEEDED,
          failingAgent ''qwen'' TIMEOUT, failingAgent ''deepseek'' AUTH_REQUIRED] ())
       = Some (Failure \<lparr>errorKind = AUTH_REQUIRED, errorMessage = ''deepseek failed''\<rparr>)"
proof -
  have h1: "[failingAgent ''openai'' QUOTA_EXCEEDED, failingAgent ''qwen'' TIMEOUT,
      failingAgent ''deepseek'' AUTH_REQUIRED] \<noteq> []" by simp
  have h2: "\<forall>a\<in>set [failingAgent ''openai'' QUOTA_EXCEEDED, failingAgent ''qwen'' TIMEOUT,
          failingAgent ''deepseek'' AUTH_REQUIRED]. isFailure (fst (invoke a ()))"
    by (simp add: failingAgent_def isFailure_def)
  show ?thesis
    using chain_all_fail [OF h1 h2] h1 h2
    by (simp add: failingAgent_def attempt_def isFailure_def)
qed

end
